theory Spec2Isabelle
  imports Main
begin

section \<open>Taurus: reflection-driven configuration binding\<close>

text \<open>
  The source is \<^verbatim>\<open>src/taurus.go\<close>. It holds two variants of the library:
  the instance variant (a \<^verbatim>\<open>Taurus\<close> struct with methods, and package-level functions
  forwarding to the package variable \<^verbatim>\<open>t\<close>), and the package-variable variant (the same
  tables held in package-level variables). Both are embedded here.
  The functions named \<open>Taurus_*\<close> are the methods of the instance variant, the functions
  named \<open>pkg_*\<close> are the functions of the package-variable variant. The functions named
  \<open>*_st\<close> are the methods of the instance variant again, as steps on the memory of the
  program.
\<close>

subsection \<open>Strings: the functions of package \<^verbatim>\<open>strings\<close> the source calls\<close>

text \<open>
  Strings are byte lists. \<^verbatim>\<open>strings.ToUpper\<close> has two paths. On text whose bytes are
  all below \<^verbatim>\<open>utf8.RuneSelf\<close> (128) it maps the bytes \<^verbatim>\<open>a..z\<close> (97 to 122) to
  \<^verbatim>\<open>A..Z\<close> and keeps every other byte: it subtracts \<^verbatim>\<open>'a' - 'A'\<close>, which is 32; each
  of the bytes 97 to 122 has the bit of value 32 set, so the subtraction clears that bit
  (the sixth argument of \<open>Char\<close>, which lists the bits from the lowest). On any other
  text it returns \<^verbatim>\<open>Map(unicode.ToUpper, s)\<close>; the tables of package \<^verbatim>\<open>unicode\<close> are
  not embedded, and that function is a parameter (\<open>mapToUpper\<close> of the world below).
\<close>

fun toUpperByte :: "char \<Rightarrow> char" where
  "toUpperByte (Char b0 b1 b2 b3 b4 b5 b6 b7) =
     (let n = (of_char (Char b0 b1 b2 b3 b4 b5 b6 b7) :: nat)
      in if 97 \<le> n \<and> n \<le> 122 then Char b0 b1 b2 b3 b4 False b6 b7
         else Char b0 b1 b2 b3 b4 b5 b6 b7)"

definition isASCII :: "string \<Rightarrow> bool" where
  "isASCII s = list_all (\<lambda>c. (of_char c :: nat) < 128) s"

definition ToUpper :: "(string \<Rightarrow> string) \<Rightarrow> string \<Rightarrow> string" where
  "ToUpper mapUnicode s = (if isASCII s then map toUpperByte s else mapUnicode s)"

fun HasPrefix :: "string \<Rightarrow> string \<Rightarrow> bool" where
  "HasPrefix s [] = True"
| "HasPrefix [] (p # ps) = False"
| "HasPrefix (c # cs) (p # ps) = (c = p \<and> HasPrefix cs ps)"

definition TrimPrefix :: "string \<Rightarrow> string \<Rightarrow> string" where
  "TrimPrefix s prefix = (if HasPrefix s prefix then drop (length prefix) s else s)"

subsection \<open>Numbers: the functions of package \<^verbatim>\<open>strconv\<close> the source calls\<close>

datatype NumError = ErrSyntax | ErrRange

text \<open>
  \<^verbatim>\<open>strconv.ParseUint(s, 10, bitSize)\<close>. The accumulator \<open>n\<close> is a \<^verbatim>\<open>uint64\<close>;
  the wrap-around of \<^verbatim>\<open>n + d\<close> is written out. A letter is a digit of a base above 10,
  so it is a syntax error, as is every other byte.
\<close>

definition maxUint64 :: nat where
  "maxUint64 = 2 ^ 64 - 1"

fun parseUintLoop :: "nat \<Rightarrow> nat \<Rightarrow> string \<Rightarrow> NumError + nat" where
  "parseUintLoop maxVal n [] = Inr n"
| "parseUintLoop maxVal n (c # cs) =
     (let b = (of_char c :: nat) in
      if 48 \<le> b \<and> b \<le> 57 then
        (let d = b - 48 in
         if n \<ge> maxUint64 div 10 + 1 then Inl ErrRange
         else
           (let n10 = n * 10; n1 = (n10 + d) mod 2 ^ 64 in
            if n1 < n10 \<or> n1 > maxVal then Inl ErrRange
            else parseUintLoop maxVal n1 cs))
      else Inl ErrSyntax)"

definition ParseUint :: "string \<Rightarrow> nat \<Rightarrow> NumError + nat" where
  "ParseUint s bitSize =
     (if s = [] then Inl ErrSyntax else parseUintLoop (2 ^ bitSize - 1) 0 s)"

text \<open>
  \<^verbatim>\<open>strconv.ParseInt(s, 10, bitSize)\<close>: an optional sign, then \<^verbatim>\<open>ParseUint\<close>; a range
  error of \<^verbatim>\<open>ParseUint\<close> comes with the value \<^verbatim>\<open>maxVal\<close>, which is above both cutoffs.
\<close>

definition ParseInt :: "string \<Rightarrow> nat \<Rightarrow> NumError + int" where
  "ParseInt s bitSize =
     (case s of
        [] \<Rightarrow> Inl ErrSyntax
      | c # cs \<Rightarrow>
          (let neg = (c = CHR ''-'');
               s' = (if c = CHR ''+'' \<or> c = CHR ''-'' then cs else s);
               cutoff = (2::nat) ^ (bitSize - 1)
           in case ParseUint s' bitSize of
                Inl ErrSyntax \<Rightarrow> Inl ErrSyntax
              | Inl ErrRange \<Rightarrow> Inl ErrRange
              | Inr un \<Rightarrow>
                  if \<not> neg \<and> un \<ge> cutoff then Inl ErrRange
                  else if neg \<and> un > cutoff then Inl ErrRange
                  else Inr (if neg then - int un else int un)))"

text \<open>\<^verbatim>\<open>strconv.ParseBool\<close>: the twelve accepted tokens.\<close>

definition ParseBool :: "string \<Rightarrow> NumError + bool" where
  "ParseBool s =
     (if s \<in> set [''1'', ''t'', ''T'', ''TRUE'', ''true'', ''True''] then Inr True
      else if s \<in> set [''0'', ''f'', ''F'', ''FALSE'', ''false'', ''False''] then Inr False
      else Inl ErrSyntax)"

text \<open>
  \<^verbatim>\<open>strconv.ParseFloat(s, 64)\<close> is a function of the Go runtime; floating point is
  not embedded. A float is carried as its IEEE 754 bit pattern, and the parser of non-empty
  text is a parameter (\<open>parseFloat64\<close> below). \<^verbatim>\<open>ParseFloat\<close> rejects the empty
  text with a syntax error before it reads anything.
\<close>

definition ParseFloat :: "(string \<Rightarrow> NumError + nat) \<Rightarrow> string \<Rightarrow> NumError + nat" where
  "ParseFloat pf s = (if s = [] then Inl ErrSyntax else pf s)"

subsection \<open>Data model: kinds, types, struct fields and values\<close>

text \<open>The kinds of package \<^verbatim>\<open>reflect\<close>, each with the prefix \<open>K\<close>.\<close>

datatype Kind =
    KBool
  | KInt | KInt8 | KInt16 | KInt32 | KInt64
  | KUint | KUint8 | KUint16 | KUint32 | KUint64 | KUintptr
  | KFloat32 | KFloat64
  | KComplex64 | KComplex128
  | KArray | KChan | KFunc | KInterface | KMap | KPointer | KSlice
  | KString
  | KStruct
  | KUnsafePointer

text \<open>
  A \<^verbatim>\<open>reflect.Type\<close> is identified by its name and has a kind. The custom tables
  of the registry are keyed by \<^verbatim>\<open>reflect.Type\<close>.
\<close>

record gtype =
  tyName :: string
  tyKind :: Kind

text \<open>
  A \<^verbatim>\<open>reflect.StructField\<close>: \<open>fName\<close> is \<^verbatim>\<open>field.Name\<close>, \<open>fTagYaml\<close> is
  \<^verbatim>\<open>field.Tag.Get("yaml")\<close>, \<open>fType\<close> is \<^verbatim>\<open>field.Type\<close>, and \<open>fExported\<close>
  says that the field is exported. The loaders reach a field only through a pointer to
  its struct (\<^verbatim>\<open>v.Elem()\<close>, \<^verbatim>\<open>fieldValue.Addr().Interface()\<close>), so the field's value is
  addressable, and \<^verbatim>\<open>fieldValue.CanSet()\<close> holds exactly when the field is exported.
\<close>

record StructField =
  fName :: string
  fTagYaml :: string
  fType :: gtype
  fExported :: bool

text \<open>
  The value of a field. A struct value lists its fields in declaration order, each with
  its static descriptor: \<^verbatim>\<open>ty.Field(i)\<close> and \<^verbatim>\<open>v.Field(i)\<close> of the source are the two
  components of the \<open>i\<close>-th pair. \<open>VOther\<close> is a value of a kind the loaders cannot
  convert (a pointer, slice, map, function, ...).
\<close>

datatype val =
    VString string
  | VInt int
  | VUint nat
  | VFloat nat
  | VBool bool
  | VOther nat
  | VStruct "(StructField \<times> val) list"

subsection \<open>Errors\<close>

text \<open>
  One constructor for each \<^verbatim>\<open>fmt.Errorf\<close> of the source, with the arguments
  it formats. \<open>Panic\<close> is a run-time panic of package \<^verbatim>\<open>reflect\<close>.
\<close>

datatype error =
    ErrNotStructPtr
  | ErrSettingField string error
  | ErrCustomUnmarshal string
  | ErrTextUnmarshal string
  | ErrInvalidInt NumError
  | ErrInvalidUint NumError
  | ErrInvalidFloat NumError
  | ErrInvalidBool NumError
  | ErrUnsupported Kind
  | Panic string

subsection \<open>The registry and the world around it\<close>

text \<open>
  A decoding function gets the address of the field and the raw bytes. It may change the
  field and may fail with a message: it returns the field's new value and the error.
\<close>

type_synonym unmarshalFn = "val \<Rightarrow> string \<Rightarrow> val \<times> string option"

text \<open>A \<^verbatim>\<open>pflag.Flag\<close>, as far as the source reads it.\<close>

record Flag =
  Changed :: bool
  ValueString :: string

text \<open>The struct \<^verbatim>\<open>Taurus\<close>; the package-variable variant holds the same six tables
  in package-level variables.\<close>

record Taurus =
  envPrefix :: string
  expandEnv :: bool
  envAliases :: "string \<rightharpoonup> string list"
  flags :: "string \<rightharpoonup> Flag"
  customMarshalers :: "gtype \<rightharpoonup> (val \<Rightarrow> string \<times> string option)"
  customUnmarshalers :: "gtype \<rightharpoonup> unmarshalFn"

text \<open>
  What the loaders read from outside the registry: the process environment
  (\<^verbatim>\<open>os.LookupEnv\<close>), the types whose pointer implements \<^verbatim>\<open>encoding.TextUnmarshaler\<close>
  with their method \<^verbatim>\<open>UnmarshalText\<close>, the float parser, the rounding of a
  \<^verbatim>\<open>float64\<close> to a \<^verbatim>\<open>float32\<close>, and \<^verbatim>\<open>Map(unicode.ToUpper, s)\<close>.
\<close>

record world =
  environ :: "string \<rightharpoonup> string"
  textUnmarshalers :: "gtype \<rightharpoonup> unmarshalFn"
  parseFloat64 :: "string \<Rightarrow> NumError + nat"
  toFloat32 :: "nat \<Rightarrow> nat"
  mapToUpper :: "string \<Rightarrow> string"

definition LookupEnv :: "world \<Rightarrow> string \<Rightarrow> string option" where
  "LookupEnv w key = environ w key"

subsection \<open>Registry operations\<close>

definition New :: Taurus where
  "New = \<lparr> envPrefix = [], expandEnv = False, envAliases = Map.empty, flags = Map.empty,
           customMarshalers = Map.empty, customUnmarshalers = Map.empty \<rparr>"

definition SetEnvPrefix :: "string \<Rightarrow> Taurus \<Rightarrow> Taurus" where
  "SetEnvPrefix prefix t = t\<lparr>envPrefix := prefix\<rparr>"

definition SetExpandEnv :: "bool \<Rightarrow> Taurus \<Rightarrow> Taurus" where
  "SetExpandEnv expand t = t\<lparr>expandEnv := expand\<rparr>"

text \<open>Reading a Go map at a missing key gives the zero value, here the nil slice.\<close>

definition aliasesOf :: "Taurus \<Rightarrow> string \<Rightarrow> string list" where
  "aliasesOf t k = (case envAliases t k of None \<Rightarrow> [] | Some as \<Rightarrow> as)"

definition BindEnvAlias :: "string \<Rightarrow> string list \<Rightarrow> Taurus \<Rightarrow> Taurus" where
  "BindEnvAlias fieldPath aliases t =
     t\<lparr>envAliases := (envAliases t)(fieldPath \<mapsto> aliasesOf t fieldPath @ aliases)\<rparr>"

definition BindFlag :: "string \<Rightarrow> Flag \<Rightarrow> Taurus \<Rightarrow> Taurus" where
  "BindFlag fieldPath flag t = t\<lparr>flags := (flags t)(fieldPath \<mapsto> flag)\<rparr>"

definition RegisterUnmarshaler :: "gtype \<Rightarrow> unmarshalFn \<Rightarrow> Taurus \<Rightarrow> Taurus" where
  "RegisterUnmarshaler ty unmarshaler t =
     t\<lparr>customUnmarshalers := (customUnmarshalers t)(ty \<mapsto> unmarshaler)\<rparr>"

subsection \<open>The type converter: \<^verbatim>\<open>setField\<close>\<close>

text \<open>
  \<^verbatim>\<open>reflect.Value.SetInt\<close> stores \<^verbatim>\<open>int8(x)\<close>, \<^verbatim>\<open>int16(x)\<close>, ... : the conversion
  keeps the low bits, read as a signed number. \<^verbatim>\<open>SetUint\<close> keeps the low bits.
  \<^verbatim>\<open>int\<close> and \<^verbatim>\<open>uint\<close> are 64 bits wide (a 64-bit target).
\<close>

fun intBits :: "Kind \<Rightarrow> nat" where
  "intBits KInt8 = 8"
| "intBits KInt16 = 16"
| "intBits KInt32 = 32"
| "intBits KInt64 = 64"
| "intBits KInt = 64"
| "intBits KUint8 = 8"
| "intBits KUint16 = 16"
| "intBits KUint32 = 32"
| "intBits KUint64 = 64"
| "intBits KUint = 64"
| "intBits k = 0"

definition SetInt :: "Kind \<Rightarrow> int \<Rightarrow> val" where
  "SetInt k x = VInt (signed_take_bit (intBits k - 1) x)"

definition SetUint :: "Kind \<Rightarrow> nat \<Rightarrow> val" where
  "SetUint k x = VUint (x mod 2 ^ intBits k)"

definition SetFloat :: "world \<Rightarrow> Kind \<Rightarrow> nat \<Rightarrow> val" where
  "SetFloat w k x = VFloat (if k = KFloat32 then toFloat32 w x else x)"

text \<open>The \<^verbatim>\<open>switch fieldValue.Kind()\<close> of \<^verbatim>\<open>setField\<close>.\<close>

definition setBuiltin :: "world \<Rightarrow> Kind \<Rightarrow> val \<Rightarrow> string \<Rightarrow> val \<times> error option" where
  "setBuiltin w k fieldValue value =
     (if k = KString then (VString value, None)
      else if k \<in> {KInt, KInt8, KInt16, KInt32, KInt64} then
        (case ParseInt value 64 of
           Inl err \<Rightarrow> (fieldValue, Some (ErrInvalidInt err))
         | Inr x \<Rightarrow> (SetInt k x, None))
      else if k \<in> {KUint, KUint8, KUint16, KUint32, KUint64} then
        (case ParseUint value 64 of
           Inl err \<Rightarrow> (fieldValue, Some (ErrInvalidUint err))
         | Inr x \<Rightarrow> (SetUint k x, None))
      else if k \<in> {KFloat32, KFloat64} then
        (case ParseFloat (parseFloat64 w) value of
           Inl err \<Rightarrow> (fieldValue, Some (ErrInvalidFloat err))
         | Inr x \<Rightarrow> (SetFloat w k x, None))
      else if k = KBool then
        (case ParseBool value of
           Inl err \<Rightarrow> (fieldValue, Some (ErrInvalidBool err))
         | Inr b \<Rightarrow> (VBool b, None))
      else (fieldValue, Some (ErrUnsupported k)))"

text \<open>
  \<^verbatim>\<open>Taurus.setField\<close>, and \<^verbatim>\<open>setField\<close> of the package-variable variant, whose body
  is the same with the package variable \<^verbatim>\<open>customUnmarshalers\<close> for \<^verbatim>\<open>t.customUnmarshalers\<close>.
  The result is the field's value after the call and the error returned.
\<close>

definition setField :: "world \<Rightarrow> Taurus \<Rightarrow> StructField \<Rightarrow> val \<Rightarrow> string \<Rightarrow> val \<times> error option" where
  "setField w t field fieldValue value =
     (case customUnmarshalers t (fType field) of
        Some customUnmarshaler \<Rightarrow>
          (case customUnmarshaler fieldValue value of
             (v', Some err) \<Rightarrow> (v', Some (ErrCustomUnmarshal err))
           | (v', None) \<Rightarrow> (v', None))
      | None \<Rightarrow>
          (case textUnmarshalers w (fType field) of
             Some unmarshaler \<Rightarrow>
               (case unmarshaler fieldValue value of
                  (v', Some err) \<Rightarrow> (v', Some (ErrTextUnmarshal err))
                | (v', None) \<Rightarrow> (v', None))
           | None \<Rightarrow> setBuiltin w (tyKind (fType field)) fieldValue value))"

subsection \<open>The environment loader\<close>

text \<open>
  \<^verbatim>\<open>reflect.Value.Interface\<close> panics on a value obtained from an unexported field;
  \<^verbatim>\<open>Addr\<close> keeps the read-only flag of the field. The loaders call
  \<^verbatim>\<open>fieldValue.Addr().Interface()\<close> on a struct-kinded field before they look at
  \<^verbatim>\<open>CanSet\<close>.
\<close>

definition panicInterface :: string where
  "panicInterface =
     ''reflect.Value.Interface: cannot return value obtained from unexported field or method''"

text \<open>The \<^verbatim>\<open>yaml\<close> tag, or the field name when the tag is empty.\<close>

definition tagOf :: "StructField \<Rightarrow> string" where
  "tagOf field = (if fTagYaml field = [] then fName field else fTagYaml field)"

text \<open>The environment key of \<^verbatim>\<open>Taurus.LoadEnv\<close>: no separator after an empty prefix.\<close>

definition Taurus_envKey :: "world \<Rightarrow> string \<Rightarrow> StructField \<Rightarrow> string" where
  "Taurus_envKey w prefix field =
     (let envKey = ToUpper (mapToUpper w) (tagOf field)
      in if prefix \<noteq> [] then prefix @ ''_'' @ envKey else envKey)"

text \<open>The environment key of \<^verbatim>\<open>LoadEnv\<close> in the package-variable variant.\<close>

definition pkg_envKey :: "world \<Rightarrow> string \<Rightarrow> StructField \<Rightarrow> string" where
  "pkg_envKey w prefix field = prefix @ ''_'' @ ToUpper (mapToUpper w) (tagOf field)"

text \<open>
  The loop over the aliases: the first alias whose prefixed key is set gives the key and
  the value.
\<close>

fun aliasLoop :: "world \<Rightarrow> string \<Rightarrow> string list \<Rightarrow> (string \<times> string) option" where
  "aliasLoop w pre [] = None"
| "aliasLoop w pre (key # keys) =
     (case LookupEnv w (pre @ ''_'' @ key) of
        Some envVal \<Rightarrow> Some (pre @ ''_'' @ key, envVal)
      | None \<Rightarrow> aliasLoop w pre keys)"

text \<open>
  The lookup of one leaf: \<^verbatim>\<open>os.LookupEnv(envKey)\<close>, then the aliases registered under
  the key without the process-wide prefix. The result is the final \<^verbatim>\<open>envKey\<close> and
  \<^verbatim>\<open>envVal\<close> when \<^verbatim>\<open>exists\<close> is true.
\<close>

definition lookupLeaf :: "world \<Rightarrow> Taurus \<Rightarrow> string \<Rightarrow> (string \<times> string) option" where
  "lookupLeaf w t envKey =
     (case LookupEnv w envKey of
        Some envVal \<Rightarrow> Some (envKey, envVal)
      | None \<Rightarrow>
          aliasLoop w (envPrefix t) (aliasesOf t (TrimPrefix envKey (envPrefix t @ ''_''))))"

text \<open>\<^verbatim>\<open>continue\<close>: the field is done, the loop goes on with the rest.\<close>

definition continue :: "'a \<Rightarrow> 'a list \<times> error option \<Rightarrow> 'a list \<times> error option" where
  "continue x r = (x # fst r, snd r)"

text \<open>
  \<^verbatim>\<open>Taurus.LoadEnv\<close>. \<open>g\<close> is the package variable \<^verbatim>\<open>t\<close> (the default instance),
  \<open>t\<close> is the receiver. The call on a struct-kinded field is the package-level
  \<^verbatim>\<open>LoadEnv(envKey, ...)\<close>, which is \<^verbatim>\<open>t.LoadEnv\<close> on the package variable: the
  receiver of the nested call is \<open>g\<close>. \<open>cfg\<close> is the value the pointer \<^verbatim>\<open>cfg\<close>
  points to; anything but a struct is refused. The result is the record after the call
  and the error returned.
\<close>

fun Taurus_LoadEnv :: "world \<Rightarrow> Taurus \<Rightarrow> Taurus \<Rightarrow> string \<Rightarrow> val \<Rightarrow> val \<times> error option"
and Taurus_LoadEnv_fields ::
  "world \<Rightarrow> Taurus \<Rightarrow> Taurus \<Rightarrow> string \<Rightarrow> (StructField \<times> val) list
     \<Rightarrow> (StructField \<times> val) list \<times> error option"
where
  "Taurus_LoadEnv w g t prefix (VStruct fs) =
     (case Taurus_LoadEnv_fields w g t prefix fs of (fs', e) \<Rightarrow> (VStruct fs', e))"
| "Taurus_LoadEnv w g t prefix cfg = (cfg, Some ErrNotStructPtr)"
| "Taurus_LoadEnv_fields w g t prefix [] = ([], None)"
| "Taurus_LoadEnv_fields w g t prefix ((field, fieldValue) # rest) =
     (let envKey = Taurus_envKey w prefix field in
      if tyKind (fType field) = KStruct then
        (if \<not> fExported field then ((field, fieldValue) # rest, Some (Panic panicInterface))
         else
           (case Taurus_LoadEnv w g g envKey fieldValue of
              (v', Some err) \<Rightarrow> ((field, v') # rest, Some err)
            | (v', None) \<Rightarrow> continue (field, v') (Taurus_LoadEnv_fields w g t prefix rest)))
      else if \<not> fExported field then
        continue (field, fieldValue) (Taurus_LoadEnv_fields w g t prefix rest)
      else
        (case lookupLeaf w t envKey of
           None \<Rightarrow> continue (field, fieldValue) (Taurus_LoadEnv_fields w g t prefix rest)
         | Some (key, envVal) \<Rightarrow>
             (case setField w t field fieldValue envVal of
                (v', Some err) \<Rightarrow> ((field, v') # rest, Some (ErrSettingField key err))
              | (v', None) \<Rightarrow>
                  continue (field, v') (Taurus_LoadEnv_fields w g t prefix rest))))"

text \<open>The package-level \<^verbatim>\<open>LoadEnv\<close> of the instance variant: \<^verbatim>\<open>t.LoadEnv(prefix, cfg)\<close>.\<close>

definition LoadEnv :: "world \<Rightarrow> Taurus \<Rightarrow> string \<Rightarrow> val \<Rightarrow> val \<times> error option" where
  "LoadEnv w g prefix cfg = Taurus_LoadEnv w g g prefix cfg"

text \<open>
  \<^verbatim>\<open>LoadEnv\<close> of the package-variable variant; \<open>r\<close> holds the package variables.
  It calls itself on a struct-kinded field.
\<close>

fun pkg_LoadEnv :: "world \<Rightarrow> Taurus \<Rightarrow> string \<Rightarrow> val \<Rightarrow> val \<times> error option"
and pkg_LoadEnv_fields ::
  "world \<Rightarrow> Taurus \<Rightarrow> string \<Rightarrow> (StructField \<times> val) list
     \<Rightarrow> (StructField \<times> val) list \<times> error option"
where
  "pkg_LoadEnv w r prefix (VStruct fs) =
     (case pkg_LoadEnv_fields w r prefix fs of (fs', e) \<Rightarrow> (VStruct fs', e))"
| "pkg_LoadEnv w r prefix cfg = (cfg, Some ErrNotStructPtr)"
| "pkg_LoadEnv_fields w r prefix [] = ([], None)"
| "pkg_LoadEnv_fields w r prefix ((field, fieldValue) # rest) =
     (let envKey = pkg_envKey w prefix field in
      if tyKind (fType field) = KStruct then
        (if \<not> fExported field then ((field, fieldValue) # rest, Some (Panic panicInterface))
         else
           (case pkg_LoadEnv w r envKey fieldValue of
              (v', Some err) \<Rightarrow> ((field, v') # rest, Some err)
            | (v', None) \<Rightarrow> continue (field, v') (pkg_LoadEnv_fields w r prefix rest)))
      else if \<not> fExported field then
        continue (field, fieldValue) (pkg_LoadEnv_fields w r prefix rest)
      else
        (case lookupLeaf w r envKey of
           None \<Rightarrow> continue (field, fieldValue) (pkg_LoadEnv_fields w r prefix rest)
         | Some (key, envVal) \<Rightarrow>
             (case setField w r field fieldValue envVal of
                (v', Some err) \<Rightarrow> ((field, v') # rest, Some (ErrSettingField key err))
              | (v', None) \<Rightarrow> continue (field, v') (pkg_LoadEnv_fields w r prefix rest))))"

subsection \<open>The flag loader\<close>

definition flagPath :: "string \<Rightarrow> StructField \<Rightarrow> string" where
  "flagPath prefix field =
     (if prefix \<noteq> [] then prefix @ ''.'' @ fName field else fName field)"

text \<open>
  \<^verbatim>\<open>Taurus.loadFlags\<close>. The nested call is \<^verbatim>\<open>t.loadFlags\<close>, on the receiver.
\<close>

fun Taurus_loadFlags :: "world \<Rightarrow> Taurus \<Rightarrow> string \<Rightarrow> val \<Rightarrow> val \<times> error option"
and Taurus_loadFlags_fields ::
  "world \<Rightarrow> Taurus \<Rightarrow> string \<Rightarrow> (StructField \<times> val) list
     \<Rightarrow> (StructField \<times> val) list \<times> error option"
where
  "Taurus_loadFlags w t prefix (VStruct fs) =
     (case Taurus_loadFlags_fields w t prefix fs of (fs', e) \<Rightarrow> (VStruct fs', e))"
| "Taurus_loadFlags w t prefix cfg = (cfg, Some ErrNotStructPtr)"
| "Taurus_loadFlags_fields w t prefix [] = ([], None)"
| "Taurus_loadFlags_fields w t prefix ((field, fieldValue) # rest) =
     (let fieldPath = flagPath prefix field in
      if tyKind (fType field) = KStruct then
        (if \<not> fExported field then ((field, fieldValue) # rest, Some (Panic panicInterface))
         else
           (case Taurus_loadFlags w t fieldPath fieldValue of
              (v', Some err) \<Rightarrow> ((field, v') # rest, Some err)
            | (v', None) \<Rightarrow> continue (field, v') (Taurus_loadFlags_fields w t prefix rest)))
      else if \<not> fExported field then
        continue (field, fieldValue) (Taurus_loadFlags_fields w t prefix rest)
      else
        (case flags t fieldPath of
           None \<Rightarrow> continue (field, fieldValue) (Taurus_loadFlags_fields w t prefix rest)
         | Some fl \<Rightarrow>
             if \<not> Changed fl then
               continue (field, fieldValue) (Taurus_loadFlags_fields w t prefix rest)
             else
               (case setField w t field fieldValue (ValueString fl) of
                  (v', Some err) \<Rightarrow> ((field, v') # rest, Some (ErrSettingField fieldPath err))
                | (v', None) \<Rightarrow>
                    continue (field, v') (Taurus_loadFlags_fields w t prefix rest))))"

text \<open>\<^verbatim>\<open>Taurus.LoadFlags\<close> and the package-level \<^verbatim>\<open>LoadFlags\<close> of the instance variant.\<close>

definition Taurus_LoadFlags :: "world \<Rightarrow> Taurus \<Rightarrow> val \<Rightarrow> val \<times> error option" where
  "Taurus_LoadFlags w t cfg = Taurus_loadFlags w t [] cfg"

definition LoadFlags :: "world \<Rightarrow> Taurus \<Rightarrow> val \<Rightarrow> val \<times> error option" where
  "LoadFlags w g cfg = Taurus_LoadFlags w g cfg"

text \<open>
  \<^verbatim>\<open>LoadFlags(prefix, cfg)\<close> of the package-variable variant. Its body is the body of
  \<^verbatim>\<open>Taurus.loadFlags\<close>, with the package variable \<^verbatim>\<open>flags\<close> for \<^verbatim>\<open>t.flags\<close> and a
  call of itself for \<^verbatim>\<open>t.loadFlags\<close>.
\<close>

definition pkg_LoadFlags :: "world \<Rightarrow> Taurus \<Rightarrow> string \<Rightarrow> val \<Rightarrow> val \<times> error option" where
  "pkg_LoadFlags w r prefix cfg = Taurus_loadFlags w r prefix cfg"

subsection \<open>The record and the environment of the scenarios\<close>

text \<open>
  The record type \<^verbatim>\<open>struct { Server struct { Port int; Host string } }\<close>, with the two
  leaf values as parameters.
\<close>

definition tyInt :: gtype where
  "tyInt = \<lparr> tyName = ''int'', tyKind = KInt \<rparr>"

definition tyInt8 :: gtype where
  "tyInt8 = \<lparr> tyName = ''int8'', tyKind = KInt8 \<rparr>"

definition tyString :: gtype where
  "tyString = \<lparr> tyName = ''string'', tyKind = KString \<rparr>"

definition tyServer :: gtype where
  "tyServer = \<lparr> tyName = ''Server'', tyKind = KStruct \<rparr>"

definition exportedField :: "string \<Rightarrow> gtype \<Rightarrow> StructField" where
  "exportedField name ty = \<lparr> fName = name, fTagYaml = [], fType = ty, fExported = True \<rparr>"

definition unexportedField :: "string \<Rightarrow> gtype \<Rightarrow> StructField" where
  "unexportedField name ty = \<lparr> fName = name, fTagYaml = [], fType = ty, fExported = False \<rparr>"

definition serverOf :: "val \<Rightarrow> val \<Rightarrow> val" where
  "serverOf port host =
     VStruct [(exportedField ''Port'' tyInt, port), (exportedField ''Host'' tyString, host)]"

definition cfgOf :: "val \<Rightarrow> val \<Rightarrow> val" where
  "cfgOf port host = VStruct [(exportedField ''Server'' tyServer, serverOf port host)]"

text \<open>A world with the given environment and no type with \<^verbatim>\<open>UnmarshalText\<close>. Its
  float parser and its \<open>mapToUpper\<close> are never reached: the records of the scenarios
  have no float field, and their field names are ASCII.\<close>

definition worldOf :: "(string \<times> string) list \<Rightarrow> world" where
  "worldOf vars = \<lparr> environ = map_of vars, textUnmarshalers = Map.empty,
                    parseFloat64 = (\<lambda>s. Inl ErrSyntax), toFloat32 = (\<lambda>x. x),
                    mapToUpper = (\<lambda>s. s) \<rparr>"

definition scenarioEnv :: world where
  "scenarioEnv =
     worldOf [(''APP_SERVER_PORT'', ''8080''), (''APP_SERVICE_HOST'', ''example.com'')]"

subsection \<open>Notions the properties are stated with\<close>

definition builtinKinds :: "Kind set" where
  "builtinKinds =
     {KString, KInt, KInt8, KInt16, KInt32, KInt64, KUint, KUint8, KUint16, KUint32, KUint64,
      KFloat32, KFloat64, KBool}"

text \<open>What \<^verbatim>\<open>setField\<close> makes of the result of a decoding function.\<close>

definition wrapUnmarshal ::
  "(string \<Rightarrow> error) \<Rightarrow> val \<times> string option \<Rightarrow> val \<times> error option" where
  "wrapUnmarshal mk r = (fst r, map_option mk (snd r))"

text \<open>A decoding function that stores a fixed value, and a world in which a type has the
  method \<^verbatim>\<open>UnmarshalText\<close>.\<close>

definition decodeTo :: "val \<Rightarrow> unmarshalFn" where
  "decodeTo x = (\<lambda>v raw. (x, None))"

definition withUnmarshalText :: "gtype \<Rightarrow> unmarshalFn \<Rightarrow> world \<Rightarrow> world" where
  "withUnmarshalText ty um w = w\<lparr>textUnmarshalers := (textUnmarshalers w)(ty \<mapsto> um)\<rparr>"

definition tyFunc :: gtype where
  "tyFunc = \<lparr> tyName = ''func()'', tyKind = KFunc \<rparr>"



text \<open>The flat record type \<^verbatim>\<open>struct { Host string; Port int; Name string }\<close>.\<close>

definition flatOf :: "val \<Rightarrow> val \<Rightarrow> val \<Rightarrow> (StructField \<times> val) list" where
  "flatOf host port name =
     [(exportedField ''Host'' tyString, host), (exportedField ''Port'' tyInt, port),
      (exportedField ''Name'' tyString, name)]"

definition signedKinds :: "Kind set" where
  "signedKinds = {KInt, KInt8, KInt16, KInt32, KInt64}"

text \<open>The record type \<^verbatim>\<open>struct { Name string; inner struct { Port int; Host string };
  Port int }\<close>, whose second field is not exported.\<close>

definition withInnerOf :: "val \<Rightarrow> val \<Rightarrow> val \<Rightarrow> val" where
  "withInnerOf name inner port =
     VStruct [(exportedField ''Name'' tyString, name), (unexportedField ''inner'' tyServer, inner),
              (exportedField ''Port'' tyInt, port)]"

text \<open>A table of decoding functions without its entries for the types of kind struct, and a
  world and a registry without any decoder for a type of kind struct.\<close>

definition dropStructDecoders :: "(gtype \<rightharpoonup> unmarshalFn) \<Rightarrow> (gtype \<rightharpoonup> unmarshalFn)" where
  "dropStructDecoders m = (\<lambda>ty. if tyKind ty = KStruct then None else m ty)"

definition worldNoStructText :: "world \<Rightarrow> world" where
  "worldNoStructText w = w\<lparr>textUnmarshalers := dropStructDecoders (textUnmarshalers w)\<rparr>"

definition registryNoStructCustom :: "Taurus \<Rightarrow> Taurus" where
  "registryNoStructCustom t = t\<lparr>customUnmarshalers := dropStructDecoders (customUnmarshalers t)\<rparr>"

text \<open>A registry with the process-wide prefix \<^verbatim>\<open>APP\<close> and the alias \<^verbatim>\<open>SERVICE_HOST\<close>
  for the leaf \<^verbatim>\<open>Server.Host\<close>.\<close>

definition aliasRegistry :: Taurus where
  "aliasRegistry = BindEnvAlias ''SERVER_HOST'' [''SERVICE_HOST''] (SetEnvPrefix ''APP'' New)"

subsection \<open>The instance variant on the memory of the program\<close>

text \<open>
  A second embedding of \<^verbatim>\<open>Taurus.setField\<close>, \<^verbatim>\<open>Taurus.LoadEnv\<close> and
  \<^verbatim>\<open>Taurus.loadFlags\<close>, statement by statement, as steps on the memory of the program.
  The memory holds every struct of type \<^verbatim>\<open>Taurus\<close> by its address, the pointer in the
  package variable \<^verbatim>\<open>t\<close>, and the process with its environment. The receiver of a method
  is an address: \<^verbatim>\<open>t.envPrefix\<close> reads the struct at that address in the memory as it is
  at that moment. A step returns its result and the memory after it, and the next statement
  runs on that memory: a statement that assigned to a field of a \<^verbatim>\<open>Taurus\<close> struct, to the
  package variable or to the environment would return a changed memory here. The record the
  call binds is passed in and returned, as in the first embedding, and shares no memory with
  the structs; a decoding function (a custom unmarshaler, a method \<^verbatim>\<open>UnmarshalText\<close>) is
  given the address of the field and writes there only. Every address holds a struct: a nil
  receiver is not embedded.
\<close>

record memory =
  instances :: "nat \<Rightarrow> Taurus"
  pkg_t :: nat
  process :: world

text \<open>The registry operations are the steps that assign to a struct: \<^verbatim>\<open>t.SetEnvPrefix\<close>,
  \<^verbatim>\<open>t.BindEnvAlias\<close> and \<^verbatim>\<open>t.BindFlag\<close> with the receiver at address \<open>t\<close>.\<close>

definition Taurus_SetEnvPrefix_st :: "nat \<Rightarrow> string \<Rightarrow> memory \<Rightarrow> memory" where
  "Taurus_SetEnvPrefix_st t prefix m =
     m\<lparr>instances := (instances m)(t := SetEnvPrefix prefix (instances m t))\<rparr>"

definition Taurus_BindEnvAlias_st :: "nat \<Rightarrow> string \<Rightarrow> string list \<Rightarrow> memory \<Rightarrow> memory" where
  "Taurus_BindEnvAlias_st t fieldPath aliases m =
     m\<lparr>instances := (instances m)(t := BindEnvAlias fieldPath aliases (instances m t))\<rparr>"

definition Taurus_BindFlag_st :: "nat \<Rightarrow> string \<Rightarrow> Flag \<Rightarrow> memory \<Rightarrow> memory" where
  "Taurus_BindFlag_st t fieldPath flag m =
     m\<lparr>instances := (instances m)(t := BindFlag fieldPath flag (instances m t))\<rparr>"

text \<open>\<^verbatim>\<open>Taurus.setField\<close> with the receiver at address \<open>t\<close>.\<close>

definition Taurus_setField_st ::
  "nat \<Rightarrow> StructField \<Rightarrow> val \<Rightarrow> string \<Rightarrow> memory \<Rightarrow> (val \<times> error option) \<times> memory" where
  "Taurus_setField_st t field fieldValue value m =
     (case customUnmarshalers (instances m t) (fType field) of
        Some customUnmarshaler \<Rightarrow>
          (case customUnmarshaler fieldValue value of
             (v', Some err) \<Rightarrow> ((v', Some (ErrCustomUnmarshal err)), m)
           | (v', None) \<Rightarrow> ((v', None), m))
      | None \<Rightarrow>
          (case textUnmarshalers (process m) (fType field) of
             Some unmarshaler \<Rightarrow>
               (case unmarshaler fieldValue value of
                  (v', Some err) \<Rightarrow> ((v', Some (ErrTextUnmarshal err)), m)
                | (v', None) \<Rightarrow> ((v', None), m))
           | None \<Rightarrow> (setBuiltin (process m) (tyKind (fType field)) fieldValue value, m)))"

definition continue_st ::
  "'a \<Rightarrow> ('a list \<times> error option) \<times> memory \<Rightarrow> ('a list \<times> error option) \<times> memory" where
  "continue_st x r = ((x # fst (fst r), snd (fst r)), snd r)"

text \<open>
  \<^verbatim>\<open>Taurus.LoadEnv\<close> with the receiver at address \<open>t\<close>. The call on a struct-kinded
  field is the package-level \<^verbatim>\<open>LoadEnv\<close>, which is \<^verbatim>\<open>t.LoadEnv\<close> on the pointer the
  package variable holds at that moment. The lookup of a leaf reads the environment,
  \<^verbatim>\<open>t.envAliases\<close> and \<^verbatim>\<open>t.envPrefix\<close>.
\<close>

fun Taurus_LoadEnv_st ::
  "nat \<Rightarrow> string \<Rightarrow> val \<Rightarrow> memory \<Rightarrow> (val \<times> error option) \<times> memory"
and Taurus_LoadEnv_fields_st ::
  "nat \<Rightarrow> string \<Rightarrow> (StructField \<times> val) list \<Rightarrow> memory
     \<Rightarrow> ((StructField \<times> val) list \<times> error option) \<times> memory"
where
  "Taurus_LoadEnv_st t prefix (VStruct fs) m =
     (case Taurus_LoadEnv_fields_st t prefix fs m of ((fs', e), m') \<Rightarrow> ((VStruct fs', e), m'))"
| "Taurus_LoadEnv_st t prefix cfg m = ((cfg, Some ErrNotStructPtr), m)"
| "Taurus_LoadEnv_fields_st t prefix [] m = (([], None), m)"
| "Taurus_LoadEnv_fields_st t prefix ((field, fieldValue) # rest) m =
     (let envKey = Taurus_envKey (process m) prefix field in
      if tyKind (fType field) = KStruct then
        (if \<not> fExported field then
           (((field, fieldValue) # rest, Some (Panic panicInterface)), m)
         else
           (case Taurus_LoadEnv_st (pkg_t m) envKey fieldValue m of
              ((v', Some err), m') \<Rightarrow> (((field, v') # rest, Some err), m')
            | ((v', None), m') \<Rightarrow>
                continue_st (field, v') (Taurus_LoadEnv_fields_st t prefix rest m')))
      else if \<not> fExported field then
        continue_st (field, fieldValue) (Taurus_LoadEnv_fields_st t prefix rest m)
      else
        (case lookupLeaf (process m) (instances m t) envKey of
           None \<Rightarrow> continue_st (field, fieldValue) (Taurus_LoadEnv_fields_st t prefix rest m)
         | Some (key, envVal) \<Rightarrow>
             (case Taurus_setField_st t field fieldValue envVal m of
                ((v', Some err), m') \<Rightarrow> (((field, v') # rest, Some (ErrSettingField key err)), m')
              | ((v', None), m') \<Rightarrow>
                  continue_st (field, v') (Taurus_LoadEnv_fields_st t prefix rest m'))))"

text \<open>\<^verbatim>\<open>Taurus.loadFlags\<close> with the receiver at address \<open>t\<close>; it reads \<^verbatim>\<open>t.flags\<close>,
  \<^verbatim>\<open>fl.Changed\<close> and \<^verbatim>\<open>fl.Value.String()\<close>.\<close>

fun Taurus_loadFlags_st ::
  "nat \<Rightarrow> string \<Rightarrow> val \<Rightarrow> memory \<Rightarrow> (val \<times> error option) \<times> memory"
and Taurus_loadFlags_fields_st ::
  "nat \<Rightarrow> string \<Rightarrow> (StructField \<times> val) list \<Rightarrow> memory
     \<Rightarrow> ((StructField \<times> val) list \<times> error option) \<times> memory"
where
  "Taurus_loadFlags_st t prefix (VStruct fs) m =
     (case Taurus_loadFlags_fields_st t prefix fs m of ((fs', e), m') \<Rightarrow> ((VStruct fs', e), m'))"
| "Taurus_loadFlags_st t prefix cfg m = ((cfg, Some ErrNotStructPtr), m)"
| "Taurus_loadFlags_fields_st t prefix [] m = (([], None), m)"
| "Taurus_loadFlags_fields_st t prefix ((field, fieldValue) # rest) m =
     (let fieldPath = flagPath prefix field in
      if tyKind (fType field) = KStruct then
        (if \<not> fExported field then
           (((field, fieldValue) # rest, Some (Panic panicInterface)), m)
         else
           (case Taurus_loadFlags_st t fieldPath fieldValue m of
              ((v', Some err), m') \<Rightarrow> (((field, v') # rest, Some err), m')
            | ((v', None), m') \<Rightarrow>
                continue_st (field, v') (Taurus_loadFlags_fields_st t prefix rest m')))
      else if \<not> fExported field then
        continue_st (field, fieldValue) (Taurus_loadFlags_fields_st t prefix rest m)
      else
        (case flags (instances m t) fieldPath of
           None \<Rightarrow> continue_st (field, fieldValue) (Taurus_loadFlags_fields_st t prefix rest m)
         | Some fl \<Rightarrow>
             if \<not> Changed fl then
               continue_st (field, fieldValue) (Taurus_loadFlags_fields_st t prefix rest m)
             else
               (case Taurus_setField_st t field fieldValue (ValueString fl) m of
                  ((v', Some err), m') \<Rightarrow>
                    (((field, v') # rest, Some (ErrSettingField fieldPath err)), m')
                | ((v', None), m') \<Rightarrow>
                    continue_st (field, v') (Taurus_loadFlags_fields_st t prefix rest m'))))"




subsection \<open>Kinds of numbers, and the error of the empty text\<close>

definition unsignedKinds :: "Kind set" where
  "unsignedKinds = {KUint, KUint8, KUint16, KUint32, KUint64}"

definition floatKinds :: "Kind set" where
  "floatKinds = {KFloat32, KFloat64}"

definition numericOrBoolKinds :: "Kind set" where
  "numericOrBoolKinds = signedKinds \<union> unsignedKinds \<union> floatKinds \<union> {KBool}"

definition emptyTextError :: "Kind \<Rightarrow> error" where
  "emptyTextError k =
     (if k \<in> signedKinds then ErrInvalidInt ErrSyntax
      else if k \<in> unsignedKinds then ErrInvalidUint ErrSyntax
      else if k \<in> floatKinds then ErrInvalidFloat ErrSyntax
      else ErrInvalidBool ErrSyntax)"

text \<open>The number a sequence of decimal digits denotes, read from the left with the
  digits so far in \<open>n\<close>.\<close>

definition isDigit :: "char \<Rightarrow> bool" where
  "isDigit c = (48 \<le> (of_char c :: nat) \<and> (of_char c :: nat) \<le> 57)"

fun digitsValue :: "nat \<Rightarrow> string \<Rightarrow> nat" where
  "digitsValue n [] = n"
| "digitsValue n (c # cs) = digitsValue (n * 10 + ((of_char c :: nat) - 48)) cs"

section \<open>Properties\<close>

text \<open>The definitions a concrete run unfolds.\<close>

lemmas registry_defs =
  New_def SetEnvPrefix_def SetExpandEnv_def BindEnvAlias_def BindFlag_def
  RegisterUnmarshaler_def aliasesOf_def

lemmas scenario_defs =
  cfgOf_def serverOf_def exportedField_def unexportedField_def tyInt_def tyInt8_def
  tyString_def tyServer_def scenarioEnv_def worldOf_def

lemmas loader_defs =
  LoadEnv_def Taurus_envKey_def pkg_envKey_def tagOf_def ToUpper_def isASCII_def lookupLeaf_def
  LookupEnv_def TrimPrefix_def continue_def Taurus_LoadFlags_def LoadFlags_def
  pkg_LoadFlags_def flagPath_def Let_def

lemmas convert_defs =
  setField_def setBuiltin_def ParseInt_def ParseUint_def ParseBool_def ParseFloat_def
  maxUint64_def SetInt_def SetUint_def SetFloat_def

subsection \<open>C1: the alias scenario\<close>

text \<open>
  C1, as stated, fails. With the alias registered under \<^verbatim>\<open>HOST\<close>, the loader looks
  the aliases up under the key of the leaf without the process-wide prefix, which is
  \<^verbatim>\<open>SERVER_HOST\<close>: it finds none, and \<^verbatim>\<open>Host\<close> keeps its value. \<^verbatim>\<open>Port\<close> is 8080.
\<close>

theorem C1_alias_under_HOST_counterexample:
  "LoadEnv scenarioEnv (BindEnvAlias ''HOST'' [''SERVICE_HOST''] (SetEnvPrefix ''APP'' New))
     ''APP'' (cfgOf (VInt 0) (VString []))
   = (cfgOf (VInt 8080) (VString []), None)
   \<and> fst (LoadEnv scenarioEnv
            (BindEnvAlias ''HOST'' [''SERVICE_HOST''] (SetEnvPrefix ''APP'' New))
            ''APP'' (cfgOf (VInt 0) (VString [])))
     \<noteq> cfgOf (VInt 8080) (VString ''example.com'')"
  by (simp add: registry_defs scenario_defs loader_defs convert_defs)

text \<open>
  C1, amended: with the alias registered under the key of the leaf without the
  process-wide prefix, \<^verbatim>\<open>SERVER_HOST\<close>, and everything else as in the scenario, the
  record holds \<^verbatim>\<open>Port = 8080\<close> and \<^verbatim>\<open>Host = "example.com"\<close> after \<^verbatim>\<open>LoadEnv\<close> returns,
  with no error, whatever the two fields held before; in both variants of the library.
\<close>

theorem C1_alias_under_SERVER_HOST:
  "LoadEnv scenarioEnv
     (BindEnvAlias ''SERVER_HOST'' [''SERVICE_HOST''] (SetEnvPrefix ''APP'' New))
     ''APP'' (cfgOf port host)
   = (cfgOf (VInt 8080) (VString ''example.com''), None)
   \<and> pkg_LoadEnv scenarioEnv
     (BindEnvAlias ''SERVER_HOST'' [''SERVICE_HOST''] (SetEnvPrefix ''APP'' New))
     ''APP'' (cfgOf port host)
   = (cfgOf (VInt 8080) (VString ''example.com''), None)"
  by (simp add: registry_defs scenario_defs loader_defs convert_defs)

subsection \<open>C2: the resolution order of the type converter\<close>

lemma setBuiltin_unsupported:
  "(snd (setBuiltin w k v raw) = Some (ErrUnsupported k)) = (k \<notin> builtinKinds)"
  by (cases k) (simp_all add: setBuiltin_def builtinKinds_def split: sum.splits)

lemma setBuiltin_unsupported_value:
  "k \<notin> builtinKinds \<Longrightarrow> setBuiltin w k v raw = (v, Some (ErrUnsupported k))"
  by (cases k) (simp_all add: setBuiltin_def builtinKinds_def)

text \<open>
  C2: \<^verbatim>\<open>setField\<close> resolves the conversion in a fixed order. (1) A custom unmarshaler
  registered for the field's type decides the result alone, whatever the type's own
  \<^verbatim>\<open>UnmarshalText\<close> is. (2) Without one, the type's \<^verbatim>\<open>UnmarshalText\<close> decides.
  (3) Without either, a field of a built-in scalar kind is converted by kind, and the
  error is never "unsupported field type". (4) Otherwise the field keeps its value and
  the error is "unsupported field type", with the kind.
\<close>

theorem C2_setField_resolution_order:
  "(customUnmarshalers t (fType field) = Some cu \<longrightarrow>
      setField w t field v raw = wrapUnmarshal ErrCustomUnmarshal (cu v raw)
      \<and> (\<forall>m. setField (w\<lparr>textUnmarshalers := m\<rparr>) t field v raw = setField w t field v raw))
   \<and> (customUnmarshalers t (fType field) = None \<and> textUnmarshalers w (fType field) = Some um \<longrightarrow>
      setField w t field v raw = wrapUnmarshal ErrTextUnmarshal (um v raw))
   \<and> (customUnmarshalers t (fType field) = None \<and> textUnmarshalers w (fType field) = None
        \<and> tyKind (fType field) \<in> builtinKinds \<longrightarrow>
      setField w t field v raw = setBuiltin w (tyKind (fType field)) v raw
      \<and> snd (setField w t field v raw) \<noteq> Some (ErrUnsupported (tyKind (fType field))))
   \<and> (customUnmarshalers t (fType field) = None \<and> textUnmarshalers w (fType field) = None
        \<and> tyKind (fType field) \<notin> builtinKinds \<longrightarrow>
      setField w t field v raw = (v, Some (ErrUnsupported (tyKind (fType field)))))"
proof (intro conjI impI allI)
  assume c: "customUnmarshalers t (fType field) = Some cu"
  show "setField w t field v raw = wrapUnmarshal ErrCustomUnmarshal (cu v raw)"
    using c by (simp add: setField_def wrapUnmarshal_def split: prod.splits option.splits)
  fix m
  show "setField (w\<lparr>textUnmarshalers := m\<rparr>) t field v raw = setField w t field v raw"
    using c by (simp add: setField_def)
next
  assume "customUnmarshalers t (fType field) = None \<and> textUnmarshalers w (fType field) = Some um"
  then show "setField w t field v raw = wrapUnmarshal ErrTextUnmarshal (um v raw)"
    by (simp add: setField_def wrapUnmarshal_def split: prod.splits option.splits)
next
  assume a: "customUnmarshalers t (fType field) = None \<and> textUnmarshalers w (fType field) = None
    \<and> tyKind (fType field) \<in> builtinKinds"
  then show eq: "setField w t field v raw = setBuiltin w (tyKind (fType field)) v raw"
    by (simp add: setField_def)
  show "snd (setField w t field v raw) \<noteq> Some (ErrUnsupported (tyKind (fType field)))"
    using a eq setBuiltin_unsupported [of w "tyKind (fType field)" v raw] by simp
next
  assume "customUnmarshalers t (fType field) = None \<and> textUnmarshalers w (fType field) = None
    \<and> tyKind (fType field) \<notin> builtinKinds"
  then show "setField w t field v raw = (v, Some (ErrUnsupported (tyKind (fType field))))"
    by (simp add: setField_def setBuiltin_unsupported_value)
qed

theorem C2_setField_resolution_order_witness:
  "setField (withUnmarshalText tyInt (decodeTo (VInt 2)) (worldOf []))
     (RegisterUnmarshaler tyInt (decodeTo (VInt 1)) New)
     (exportedField ''Port'' tyInt) (VInt 0) ''7'' = (VInt 1, None)
   \<and> setField (withUnmarshalText tyInt (decodeTo (VInt 2)) (worldOf [])) New
     (exportedField ''Port'' tyInt) (VInt 0) ''7'' = (VInt 2, None)
   \<and> setField (worldOf []) New (exportedField ''Port'' tyInt) (VInt 0) ''7'' = (VInt 7, None)
   \<and> setField (worldOf []) New (exportedField ''Hook'' tyFunc) (VOther 0) ''7''
     = (VOther 0, Some (ErrUnsupported KFunc))"
  using
    C2_setField_resolution_order
      [where t = "RegisterUnmarshaler tyInt (decodeTo (VInt 1)) New"
         and w = "withUnmarshalText tyInt (decodeTo (VInt 2)) (worldOf [])"
         and field = "exportedField ''Port'' tyInt" and cu = "decodeTo (VInt 1)"
         and um = "decodeTo (VInt 2)" and v = "VInt 0" and raw = "''7''"]
    C2_setField_resolution_order
      [where t = New
         and w = "withUnmarshalText tyInt (decodeTo (VInt 2)) (worldOf [])"
         and field = "exportedField ''Port'' tyInt" and cu = "decodeTo (VInt 1)"
         and um = "decodeTo (VInt 2)" and v = "VInt 0" and raw = "''7''"]
    C2_setField_resolution_order
      [where t = New and w = "worldOf []"
         and field = "exportedField ''Port'' tyInt" and cu = "decodeTo (VInt 1)"
         and um = "decodeTo (VInt 2)" and v = "VInt 0" and raw = "''7''"]
    C2_setField_resolution_order
      [where t = New and w = "worldOf []"
         and field = "exportedField ''Hook'' tyFunc" and cu = "decodeTo (VInt 1)"
         and um = "decodeTo (VInt 2)" and v = "VOther 0" and raw = "''7''"]
  by (simp add: registry_defs scenario_defs withUnmarshalText_def tyFunc_def decodeTo_def
      wrapUnmarshal_def builtinKinds_def setBuiltin_def ParseInt_def ParseUint_def
      maxUint64_def SetInt_def)

subsection \<open>C3: the flag loader applies changed flags only\<close>







subsection \<open>C4: a conversion failure aborts the environment loader, without rollback\<close>

text \<open>The loop over the fields of a struct, cut in two: the second part runs only if the
  first part returns no error, and is returned as it was otherwise.\<close>

lemma Taurus_LoadEnv_fields_append:
  "Taurus_LoadEnv_fields w g t prefix (pre @ rest) =
     (case Taurus_LoadEnv_fields w g t prefix pre of
        (pre', Some e) \<Rightarrow> (pre' @ rest, Some e)
      | (pre', None) \<Rightarrow>
          (case Taurus_LoadEnv_fields w g t prefix rest of (rest', e) \<Rightarrow> (pre' @ rest', e)))"
proof (induction pre)
  case Nil
  show ?case by simp
next
  case (Cons x pre)
  obtain field v where x: "x = (field, v)" by (cases x)
  show ?case
    unfolding x using Cons.IH
    by (simp add: continue_def Let_def split: prod.splits option.splits)
qed

lemma pkg_LoadEnv_fields_append:
  "pkg_LoadEnv_fields w r prefix (pre @ rest) =
     (case pkg_LoadEnv_fields w r prefix pre of
        (pre', Some e) \<Rightarrow> (pre' @ rest, Some e)
      | (pre', None) \<Rightarrow>
          (case pkg_LoadEnv_fields w r prefix rest of (rest', e) \<Rightarrow> (pre' @ rest', e)))"
proof (induction pre)
  case Nil
  show ?case by simp
next
  case (Cons x pre)
  obtain field v where x: "x = (field, v)" by (cases x)
  show ?case
    unfolding x using Cons.IH
    by (simp add: continue_def Let_def split: prod.splits option.splits)
qed

text \<open>
  C4, for \<^verbatim>\<open>Taurus.LoadEnv\<close>. Let the fields \<open>pre\<close> before a field be bound without
  error, giving \<open>pre'\<close>. (1) If the field is a settable leaf whose lookup (direct or by
  alias) finds \<open>raw\<close> under \<open>key\<close> and the conversion fails with \<open>cause\<close>, the call
  returns the error naming \<open>key\<close> and \<open>cause\<close>; the fields before keep their new
  values \<open>pre'\<close>, and the fields \<open>post\<close> after it are returned as they were, whatever
  they are. (2) If the field is a struct and the loader fails inside it, the call
  returns that same error, with the same two guarantees. (3) A settable leaf for which
  the lookup finds nothing keeps its value and yields no error: the result is that of the
  loop over the remaining fields.
\<close>

theorem C4_LoadEnv_aborts_without_rollback:
  "(Taurus_LoadEnv_fields w g t prefix pre = (pre', None)
      \<and> tyKind (fType field) \<noteq> KStruct \<and> fExported field
      \<and> lookupLeaf w t (Taurus_envKey w prefix field) = Some (key, raw)
      \<and> setField w t field v raw = (v', Some cause) \<longrightarrow>
    Taurus_LoadEnv w g t prefix (VStruct (pre @ (field, v) # post))
      = (VStruct (pre' @ (field, v') # post), Some (ErrSettingField key cause)))
   \<and> (Taurus_LoadEnv_fields w g t prefix pre = (pre', None)
      \<and> tyKind (fType field) = KStruct \<and> fExported field
      \<and> Taurus_LoadEnv w g g (Taurus_envKey w prefix field) v = (v', Some err) \<longrightarrow>
    Taurus_LoadEnv w g t prefix (VStruct (pre @ (field, v) # post))
      = (VStruct (pre' @ (field, v') # post), Some err))
   \<and> (tyKind (fType field) \<noteq> KStruct \<and> fExported field
      \<and> lookupLeaf w t (Taurus_envKey w prefix field) = None \<longrightarrow>
    Taurus_LoadEnv_fields w g t prefix ((field, v) # post)
      = ((field, v) # fst (Taurus_LoadEnv_fields w g t prefix post),
         snd (Taurus_LoadEnv_fields w g t prefix post)))"
  by (simp add: Taurus_LoadEnv_fields_append continue_def Let_def)

text \<open>The same holds for \<^verbatim>\<open>LoadEnv\<close> of the package-variable variant.\<close>

lemma pkg_LoadEnv_aborts_without_rollback:
  "(pkg_LoadEnv_fields w r prefix pre = (pre', None)
      \<and> tyKind (fType field) \<noteq> KStruct \<and> fExported field
      \<and> lookupLeaf w r (pkg_envKey w prefix field) = Some (key, raw)
      \<and> setField w r field v raw = (v', Some cause) \<longrightarrow>
    pkg_LoadEnv w r prefix (VStruct (pre @ (field, v) # post))
      = (VStruct (pre' @ (field, v') # post), Some (ErrSettingField key cause)))
   \<and> (pkg_LoadEnv_fields w r prefix pre = (pre', None)
      \<and> tyKind (fType field) = KStruct \<and> fExported field
      \<and> pkg_LoadEnv w r (pkg_envKey w prefix field) v = (v', Some err) \<longrightarrow>
    pkg_LoadEnv w r prefix (VStruct (pre @ (field, v) # post))
      = (VStruct (pre' @ (field, v') # post), Some err))
   \<and> (tyKind (fType field) \<noteq> KStruct \<and> fExported field
      \<and> lookupLeaf w r (pkg_envKey w prefix field) = None \<longrightarrow>
    pkg_LoadEnv_fields w r prefix ((field, v) # post)
      = ((field, v) # fst (pkg_LoadEnv_fields w r prefix post),
         snd (pkg_LoadEnv_fields w r prefix post)))"
  by (simp add: pkg_LoadEnv_fields_append continue_def Let_def)

theorem C4_LoadEnv_aborts_without_rollback_witness:
  "Taurus_LoadEnv
     (worldOf [(''APP_HOST'', ''example.com''), (''APP_PORT'', ''http''), (''APP_NAME'', ''new'')])
     New (SetEnvPrefix ''APP'' New) ''APP''
     (VStruct (flatOf (VString ''localhost'') (VInt 80) (VString ''old'')))
   = (VStruct (flatOf (VString ''example.com'') (VInt 80) (VString ''old'')),
      Some (ErrSettingField ''APP_PORT'' (ErrInvalidInt ErrSyntax)))
   \<and> Taurus_LoadEnv (worldOf [(''APP_SERVER_PORT'', ''http'')])
       (SetEnvPrefix ''APP'' New) (SetEnvPrefix ''APP'' New) ''APP''
       (cfgOf (VInt 80) (VString ''localhost''))
     = (cfgOf (VInt 80) (VString ''localhost''),
        Some (ErrSettingField ''APP_SERVER_PORT'' (ErrInvalidInt ErrSyntax)))
   \<and> Taurus_LoadEnv_fields (worldOf [(''APP_NAME'', ''new'')])
       New (SetEnvPrefix ''APP'' New) ''APP''
       [(exportedField ''Port'' tyInt, VInt 80), (exportedField ''Name'' tyString, VString ''old'')]
     = ([(exportedField ''Port'' tyInt, VInt 80), (exportedField ''Name'' tyString, VString ''new'')],
        None)"
  using
    C4_LoadEnv_aborts_without_rollback
      [where w = "worldOf [(''APP_HOST'', ''example.com''), (''APP_PORT'', ''http''),
                           (''APP_NAME'', ''new'')]"
         and g = New and t = "SetEnvPrefix ''APP'' New" and prefix = "''APP''"
         and pre = "[(exportedField ''Host'' tyString, VString ''localhost'')]"
         and pre' = "[(exportedField ''Host'' tyString, VString ''example.com'')]"
         and field = "exportedField ''Port'' tyInt" and v = "VInt 80" and v' = "VInt 80"
         and key = "''APP_PORT''" and raw = "''http''" and cause = "ErrInvalidInt ErrSyntax"
         and post = "[(exportedField ''Name'' tyString, VString ''old'')]"]
    C4_LoadEnv_aborts_without_rollback
      [where w = "worldOf [(''APP_SERVER_PORT'', ''http'')]"
         and g = "SetEnvPrefix ''APP'' New" and t = "SetEnvPrefix ''APP'' New"
         and prefix = "''APP''" and pre = "[]" and pre' = "[]"
         and field = "exportedField ''Server'' tyServer"
         and v = "serverOf (VInt 80) (VString ''localhost'')"
         and v' = "serverOf (VInt 80) (VString ''localhost'')"
         and err = "ErrSettingField ''APP_SERVER_PORT'' (ErrInvalidInt ErrSyntax)"
         and post = "[]"]
    C4_LoadEnv_aborts_without_rollback
      [where w = "worldOf [(''APP_NAME'', ''new'')]"
         and g = New and t = "SetEnvPrefix ''APP'' New" and prefix = "''APP''"
         and field = "exportedField ''Port'' tyInt" and v = "VInt 80"
         and post = "[(exportedField ''Name'' tyString, VString ''old'')]"]
  by (simp add: registry_defs scenario_defs flatOf_def loader_defs convert_defs)

subsection \<open>C5: signed integers are parsed as 64-bit numbers and narrowed\<close>

text \<open>
  C5, as stated, fails: \<^verbatim>\<open>"300"\<close> is out of range for an \<^verbatim>\<open>int8\<close> (parsing it as an
  \<^verbatim>\<open>int8\<close> is a range error), and \<^verbatim>\<open>setField\<close> stores 44 in an \<^verbatim>\<open>int8\<close> field and
  returns no error.
\<close>

theorem C5_int8_300_counterexample:
  "ParseInt ''300'' 8 = Inl ErrRange
   \<and> setField (worldOf []) New (exportedField ''Level'' tyInt8) (VInt 0) ''300''
     = (VInt 44, None)"
  by (simp add: registry_defs scenario_defs convert_defs)

lemma parseUintLoop_mono:
  "parseUintLoop m n s = Inr x \<Longrightarrow> m \<le> m' \<Longrightarrow> parseUintLoop m' n s = Inr x"
  by (induction s arbitrary: n) (auto simp: Let_def split: if_splits)

lemma ParseUint_mono:
  assumes "ParseUint s b = Inr x" and "b \<le> 64"
  shows "ParseUint s 64 = Inr x"
proof -
  have "(2::nat) ^ b \<le> 2 ^ 64"
    by (rule power_increasing) (use assms(2) in simp_all)
  then have "(2::nat) ^ b - 1 \<le> 2 ^ 64 - 1"
    by (rule diff_le_mono)
  then show ?thesis
    using assms(1) parseUintLoop_mono [of "2 ^ b - 1" 0 s x "2 ^ 64 - 1"]
    by (simp add: ParseUint_def split: if_splits)
qed

text \<open>Text that parses in a width of at most 64 bits parses to the same number as a
  64-bit integer, and the number is in the range of the width.\<close>

lemma ParseInt_native_in_64:
  assumes p: "ParseInt s b = Inr n" and b: "0 < b" "b \<le> 64"
  shows "ParseInt s 64 = Inr n \<and> - (2 ^ (b - 1)) \<le> n \<and> n < 2 ^ (b - 1)"
proof -
  obtain c cs where s: "s = c # cs"
    using p by (cases s) (simp_all add: ParseInt_def)
  define s' where "s' = (if c = CHR ''+'' \<or> c = CHR ''-'' then cs else s)"
  obtain un where un: "ParseUint s' b = Inr un"
    using p unfolding s ParseInt_def s'_def
    by (auto simp: Let_def split: sum.splits NumError.splits)
  have un64: "ParseUint s' 64 = Inr un"
    using un b(2) by (rule ParseUint_mono)
  have le: "(2::nat) ^ (b - 1) \<le> 2 ^ 63"
    by (rule power_increasing) (use b(2) in simp_all)
  show ?thesis
  proof (cases "c = CHR ''-''")
    case True
    then have r: "un \<le> 2 ^ (b - 1)" and n: "n = - int un"
      using p un unfolding s ParseInt_def s'_def
      by (auto simp: Let_def split: if_splits)
    have i: "int un \<le> 2 ^ (b - 1)"
      using r by (metis of_nat_le_iff of_nat_numeral of_nat_power)
    have pos: "(0::int) < 2 ^ (b - 1)"
      by simp
    have "- (2 ^ (b - 1)) \<le> n \<and> n < 2 ^ (b - 1)"
      using i pos n by linarith
    moreover have "ParseInt s 64 = Inr n"
      using True un64 r le n unfolding s ParseInt_def s'_def
      by (auto simp: Let_def)
    ultimately show ?thesis
      by blast
  next
    case False
    then have r: "un < 2 ^ (b - 1)" and n: "n = int un"
      using p un unfolding s ParseInt_def s'_def
      by (auto simp: Let_def split: if_splits)
    have i: "int un < 2 ^ (b - 1)"
      using r by (metis of_nat_less_iff of_nat_numeral of_nat_power)
    have pos: "(0::int) < 2 ^ (b - 1)"
      by simp
    have "- (2 ^ (b - 1)) \<le> n \<and> n < 2 ^ (b - 1)"
      using i pos n by linarith
    moreover have "ParseInt s 64 = Inr n"
      using False un64 r le n unfolding s ParseInt_def s'_def
      by (auto simp: Let_def)
    ultimately show ?thesis
      by blast
  qed
qed

lemma digitsValue_ge: "n \<le> digitsValue n s"
proof (induction s arbitrary: n)
  case Nil
  show ?case by simp
next
  case (Cons c cs)
  have "n \<le> n * 10 + ((of_char c :: nat) - 48)" by simp
  also have "\<dots> \<le> digitsValue (n * 10 + ((of_char c :: nat) - 48)) cs" by (rule Cons.IH)
  finally show ?case by simp
qed

lemma parseUintLoop_digits:
  "list_all isDigit s \<Longrightarrow> digitsValue n s \<le> maxVal \<Longrightarrow> maxVal < 2 ^ 64 \<Longrightarrow>
   parseUintLoop maxVal n s = Inr (digitsValue n s)"
proof (induction s arbitrary: n)
  case Nil
  show ?case by simp
next
  case (Cons c cs)
  let ?d = "(of_char c :: nat) - 48"
  have dig: "48 \<le> (of_char c :: nat)" "(of_char c :: nat) \<le> 57"
    using Cons.prems(1) by (simp_all add: isDigit_def)
  have "n * 10 + ?d \<le> digitsValue (n * 10 + ?d) cs"
    by (rule digitsValue_ge)
  then have le: "n * 10 + ?d \<le> maxVal"
    using Cons.prems(2) by simp
  then have small: "n * 10 + ?d < 2 ^ 64"
    using Cons.prems(3) by simp
  then have cut: "\<not> n \<ge> maxUint64 div 10 + 1"
    by (simp add: maxUint64_def)
  have rec: "parseUintLoop maxVal (n * 10 + ?d) cs = Inr (digitsValue (n * 10 + ?d) cs)"
    using Cons.prems by (intro Cons.IH) simp_all
  show ?case
    using dig le small cut rec by (simp add: Let_def)
qed

text \<open>
  \<^verbatim>\<open>ParseInt\<close> on a valid decimal text: a non-empty sequence of digits, with or without
  a minus sign, whose value is in the range of a signed integer of \<open>b\<close> bits, parses in
  that width to the number it denotes.
\<close>

lemma ParseInt_decimal:
  assumes "ds \<noteq> []" and "list_all isDigit ds" and "0 < b" and "b \<le> 64"
  shows "digitsValue 0 ds < 2 ^ (b - 1) \<Longrightarrow> ParseInt ds b = Inr (int (digitsValue 0 ds))"
    and "digitsValue 0 ds \<le> 2 ^ (b - 1) \<Longrightarrow>
         ParseInt (CHR ''-'' # ds) b = Inr (- int (digitsValue 0 ds))"
proof -
  have p: "(2::nat) ^ b \<le> 2 ^ 64"
    by (rule power_increasing) (use assms(4) in simp_all)
  have half: "(2::nat) ^ b = 2 * 2 ^ (b - 1)"
    using assms(3) by (cases b) simp_all
  have un: "ParseUint ds b = Inr (digitsValue 0 ds)" if "digitsValue 0 ds \<le> 2 ^ (b - 1)"
  proof -
    have "digitsValue 0 ds \<le> 2 ^ b - 1"
      using that half by simp
    moreover have "(2::nat) ^ b - 1 < 2 ^ 64"
      using p by (simp add: less_le_trans [OF diff_less])
    ultimately show ?thesis
      using assms(1,2) by (simp add: ParseUint_def parseUintLoop_digits)
  qed
  obtain c cs where ds: "ds = c # cs"
    using assms(1) by (cases ds) simp_all
  have c: "c \<noteq> CHR ''+''" "c \<noteq> CHR ''-''"
    using assms(2) unfolding ds by (auto simp: isDigit_def)
  show "ParseInt ds b = Inr (int (digitsValue 0 ds))" if "digitsValue 0 ds < 2 ^ (b - 1)"
    using that un c unfolding ParseInt_def ds by (simp add: Let_def)
  show "ParseInt (CHR ''-'' # ds) b = Inr (- int (digitsValue 0 ds))"
    if "digitsValue 0 ds \<le> 2 ^ (b - 1)"
    using that un unfolding ParseInt_def by (simp add: Let_def)
qed

lemma intBits_signedKinds:
  "k \<in> signedKinds \<Longrightarrow> 0 < intBits k \<and> intBits k \<le> 64"
  by (auto simp: signedKinds_def)

lemma setBuiltin_signed:
  "k \<in> signedKinds \<Longrightarrow>
   setBuiltin w k v raw =
     (case ParseInt raw 64 of
        Inl err \<Rightarrow> (v, Some (ErrInvalidInt err))
      | Inr x \<Rightarrow> (VInt (signed_take_bit (intBits k - 1) x), None))"
  by (auto simp: signedKinds_def setBuiltin_def SetInt_def split: sum.splits)

text \<open>
  C5, amended. For a signed-integer field of any width, with no custom unmarshaler and no
  \<^verbatim>\<open>UnmarshalText\<close>: (1) a valid decimal text (digits, with or without a minus sign)
  whose value is in the range of the field's own integer type gives the field exactly that
  value, and no error; so does, more generally, every text that parses in the field's own
  integer type; (2) text that does not parse as a 64-bit integer (malformed, or out of the
  64-bit range) gives the error "invalid int" with the cause, and the field keeps its value;
  (3) text that parses as a 64-bit integer \<open>x\<close> always gives the field the low bits of
  \<open>x\<close>, read as a signed number of the field's width, and no error: a number out of range
  for a narrower field is truncated.
\<close>

theorem C5_signed_integer_conversion:
  assumes "tyKind (fType field) \<in> signedKinds"
    and "customUnmarshalers t (fType field) = None"
    and "textUnmarshalers w (fType field) = None"
  shows
   "(\<forall>ds. ds \<noteq> [] \<and> list_all isDigit ds \<longrightarrow>
       (digitsValue 0 ds < 2 ^ (intBits (tyKind (fType field)) - 1) \<longrightarrow>
          setField w t field v ds = (VInt (int (digitsValue 0 ds)), None))
       \<and> (digitsValue 0 ds \<le> 2 ^ (intBits (tyKind (fType field)) - 1) \<longrightarrow>
          setField w t field v (CHR ''-'' # ds) = (VInt (- int (digitsValue 0 ds)), None)))
    \<and> (\<forall>n. ParseInt raw (intBits (tyKind (fType field))) = Inr n \<longrightarrow>
       setField w t field v raw = (VInt n, None))
    \<and> (\<forall>e. ParseInt raw 64 = Inl e \<longrightarrow>
       setField w t field v raw = (v, Some (ErrInvalidInt e)))
    \<and> (\<forall>x. ParseInt raw 64 = Inr x \<longrightarrow>
       setField w t field v raw
         = (VInt (signed_take_bit (intBits (tyKind (fType field)) - 1) x), None))"
proof -
  let ?k = "tyKind (fType field)"
  have eq: "setField w t field v raw =
     (case ParseInt raw 64 of
        Inl err \<Rightarrow> (v, Some (ErrInvalidInt err))
      | Inr x \<Rightarrow> (VInt (signed_take_bit (intBits ?k - 1) x), None))" for raw
    using assms by (simp add: setField_def setBuiltin_signed)
  have bits: "0 < intBits ?k" "intBits ?k \<le> 64"
    using intBits_signedKinds [OF assms(1)] by simp_all
  have native: "setField w t field v raw = (VInt n, None)"
    if p: "ParseInt raw (intBits ?k) = Inr n" for n raw
  proof -
    have "ParseInt raw 64 = Inr n \<and> - (2 ^ (intBits ?k - 1)) \<le> n \<and> n < 2 ^ (intBits ?k - 1)"
      using p bits by (intro ParseInt_native_in_64) simp_all
    then show ?thesis
      using eq [of raw] by (simp add: signed_take_bit_int_eq_self)
  qed
  have "setField w t field v ds = (VInt (int (digitsValue 0 ds)), None)"
    if "ds \<noteq> []" "list_all isDigit ds" "digitsValue 0 ds < 2 ^ (intBits ?k - 1)" for ds
    using that bits by (intro native ParseInt_decimal(1)) simp_all
  moreover have "setField w t field v (CHR ''-'' # ds) = (VInt (- int (digitsValue 0 ds)), None)"
    if "ds \<noteq> []" "list_all isDigit ds" "digitsValue 0 ds \<le> 2 ^ (intBits ?k - 1)" for ds
    using that bits by (intro native ParseInt_decimal(2)) simp_all
  ultimately show ?thesis
    using eq [of raw] native [of raw] by simp
qed

theorem C5_signed_integer_conversion_witness:
  "setField (worldOf []) New (exportedField ''Level'' tyInt8) (VInt 0) ''127''
     = (VInt 127, None)
   \<and> setField (worldOf []) New (exportedField ''Level'' tyInt8) (VInt 0) ''-128''
     = (VInt (- 128), None)
   \<and> setField (worldOf []) New (exportedField ''Level'' tyInt8) (VInt 0) ''1e3''
     = (VInt 0, Some (ErrInvalidInt ErrSyntax))
   \<and> setField (worldOf []) New (exportedField ''Level'' tyInt8) (VInt 0)
       ''9223372036854775808''
     = (VInt 0, Some (ErrInvalidInt ErrRange))
   \<and> setField (worldOf []) New (exportedField ''Level'' tyInt8) (VInt 0) ''300''
     = (VInt 44, None)"
  using
    C5_signed_integer_conversion
      [where field = "exportedField ''Level'' tyInt8" and t = New and w = "worldOf []"
         and v = "VInt 0" and raw = "''127''", THEN conjunct1, rule_format, of "''127''"]
    C5_signed_integer_conversion
      [where field = "exportedField ''Level'' tyInt8" and t = New and w = "worldOf []"
         and v = "VInt 0" and raw = "''-128''"]
    C5_signed_integer_conversion
      [where field = "exportedField ''Level'' tyInt8" and t = New and w = "worldOf []"
         and v = "VInt 0" and raw = "''1e3''"]
    C5_signed_integer_conversion
      [where field = "exportedField ''Level'' tyInt8" and t = New and w = "worldOf []"
         and v = "VInt 0" and raw = "''9223372036854775808''"]
    C5_signed_integer_conversion
      [where field = "exportedField ''Level'' tyInt8" and t = New and w = "worldOf []"
         and v = "VInt 0" and raw = "''300''"]
  by (simp add: registry_defs scenario_defs signedKinds_def ParseInt_def ParseUint_def
      maxUint64_def isDigit_def)

subsection \<open>C6: fields that are not exported\<close>

text \<open>A field that is not exported and not of kind struct is skipped by both loaders:
  it keeps its value, yields no error, and the loop goes on.\<close>

lemma unexported_leaf_skipped:
  assumes "\<not> fExported field" and "tyKind (fType field) \<noteq> KStruct"
  shows "Taurus_LoadEnv_fields w g t prefix ((field, v) # rest)
           = continue (field, v) (Taurus_LoadEnv_fields w g t prefix rest)"
    and "pkg_LoadEnv_fields w t prefix ((field, v) # rest)
           = continue (field, v) (pkg_LoadEnv_fields w t prefix rest)"
    and "Taurus_loadFlags_fields w t prefix ((field, v) # rest)
           = continue (field, v) (Taurus_loadFlags_fields w t prefix rest)"
  using assms by (simp_all add: Let_def)

text \<open>
  C6: the code does not do what the claim says on a struct-kinded field that is not
  exported. The loaders take \<^verbatim>\<open>fieldValue.Addr().Interface()\<close> of a struct-kinded field
  before the test of \<^verbatim>\<open>CanSet\<close>, and \<^verbatim>\<open>Interface\<close> panics on a value obtained from
  an unexported field. On the record \<^verbatim>\<open>{Name; inner struct{...}; Port}\<close> with values for
  \<^verbatim>\<open>Name\<close> and \<^verbatim>\<open>Port\<close> in the environment (in the flags), \<^verbatim>\<open>Name\<close> is bound, the call
  panics at \<^verbatim>\<open>inner\<close>, and \<^verbatim>\<open>Port\<close> is never reached.
\<close>

theorem C6_unexported_struct_field_panics:
  "Taurus_LoadEnv (worldOf [(''APP_NAME'', ''new''), (''APP_PORT'', ''8080'')])
     (SetEnvPrefix ''APP'' New) (SetEnvPrefix ''APP'' New) ''APP''
     (withInnerOf (VString ''old'') (serverOf (VInt 0) (VString [])) (VInt 80))
   = (withInnerOf (VString ''new'') (serverOf (VInt 0) (VString [])) (VInt 80),
      Some (Panic panicInterface))
   \<and> pkg_LoadEnv (worldOf [(''APP_NAME'', ''new''), (''APP_PORT'', ''8080'')])
     (SetEnvPrefix ''APP'' New) ''APP''
     (withInnerOf (VString ''old'') (serverOf (VInt 0) (VString [])) (VInt 80))
   = (withInnerOf (VString ''new'') (serverOf (VInt 0) (VString [])) (VInt 80),
      Some (Panic panicInterface))
   \<and> Taurus_LoadFlags (worldOf [])
     (BindFlag ''Port'' \<lparr> Changed = True, ValueString = ''8080'' \<rparr>
       (BindFlag ''Name'' \<lparr> Changed = True, ValueString = ''new'' \<rparr> New))
     (withInnerOf (VString ''old'') (serverOf (VInt 0) (VString [])) (VInt 80))
   = (withInnerOf (VString ''new'') (serverOf (VInt 0) (VString [])) (VInt 80),
      Some (Panic panicInterface))"
  by (simp add: registry_defs scenario_defs withInnerOf_def loader_defs convert_defs)

subsection \<open>C7: struct-kinded fields are never leaves\<close>

text \<open>
  C7, as stated, fails. The type of the field \<^verbatim>\<open>Server\<close> has the method
  \<^verbatim>\<open>UnmarshalText\<close> and no custom converter, and both the environment and the flag
  registry hold a text for the field; converting the field from that text would give it the
  decoded value, as \<^verbatim>\<open>setField\<close> shows. The loaders recurse into the field instead, find
  nothing for its subfields, and the field keeps its value.
\<close>

theorem C7_struct_with_UnmarshalText_counterexample:
  "setField
     (withUnmarshalText tyServer (decodeTo (serverOf (VInt 443) (VString ''example.com'')))
        (worldOf [(''APP_SERVER'', ''example.com:443'')]))
     (SetEnvPrefix ''APP'' New) (exportedField ''Server'' tyServer)
     (serverOf (VInt 80) (VString ''localhost'')) ''example.com:443''
   = (serverOf (VInt 443) (VString ''example.com''), None)
   \<and> LoadEnv
     (withUnmarshalText tyServer (decodeTo (serverOf (VInt 443) (VString ''example.com'')))
        (worldOf [(''APP_SERVER'', ''example.com:443'')]))
     (SetEnvPrefix ''APP'' New) ''APP'' (cfgOf (VInt 80) (VString ''localhost''))
   = (cfgOf (VInt 80) (VString ''localhost''), None)
   \<and> LoadFlags
     (withUnmarshalText tyServer (decodeTo (serverOf (VInt 443) (VString ''example.com'')))
        (worldOf []))
     (BindFlag ''Server'' \<lparr> Changed = True, ValueString = ''example.com:443'' \<rparr> New)
     (cfgOf (VInt 80) (VString ''localhost''))
   = (cfgOf (VInt 80) (VString ''localhost''), None)"
  by (simp add: registry_defs scenario_defs withUnmarshalText_def decodeTo_def loader_defs
      setField_def)

text \<open>The converter is called on fields that are not of kind struct only, and for those
  the decoders of the struct types do not matter.\<close>

lemma worldNoStructText_sel:
  "environ (worldNoStructText w) = environ w"
  "parseFloat64 (worldNoStructText w) = parseFloat64 w"
  "toFloat32 (worldNoStructText w) = toFloat32 w"
  "mapToUpper (worldNoStructText w) = mapToUpper w"
  "tyKind ty \<noteq> KStruct \<Longrightarrow> textUnmarshalers (worldNoStructText w) ty = textUnmarshalers w ty"
  by (simp_all add: worldNoStructText_def dropStructDecoders_def)

lemma registryNoStructCustom_sel:
  "envPrefix (registryNoStructCustom t) = envPrefix t"
  "envAliases (registryNoStructCustom t) = envAliases t"
  "flags (registryNoStructCustom t) = flags t"
  "tyKind ty \<noteq> KStruct \<Longrightarrow>
     customUnmarshalers (registryNoStructCustom t) ty = customUnmarshalers t ty"
  by (simp_all add: registryNoStructCustom_def dropStructDecoders_def)

lemma envKey_no_struct_decoders:
  "Taurus_envKey (worldNoStructText w) prefix field = Taurus_envKey w prefix field"
  "pkg_envKey (worldNoStructText w) prefix field = pkg_envKey w prefix field"
  by (simp_all add: Taurus_envKey_def pkg_envKey_def worldNoStructText_sel)

lemma setBuiltin_no_struct_decoders:
  "setBuiltin (worldNoStructText w) k v raw = setBuiltin w k v raw"
  by (simp add: setBuiltin_def worldNoStructText_sel SetFloat_def split: sum.splits)

lemma setField_no_struct_decoders:
  "tyKind (fType field) \<noteq> KStruct \<Longrightarrow>
   setField (worldNoStructText w) (registryNoStructCustom t) field v raw = setField w t field v raw"
  by (simp add: setField_def worldNoStructText_sel registryNoStructCustom_sel
      setBuiltin_no_struct_decoders split: option.splits)

lemma aliasLoop_no_struct_decoders:
  "aliasLoop (worldNoStructText w) pre keys = aliasLoop w pre keys"
  by (induction keys) (simp_all add: LookupEnv_def worldNoStructText_sel split: option.splits)

lemma lookupLeaf_no_struct_decoders:
  "lookupLeaf (worldNoStructText w) (registryNoStructCustom t) envKey = lookupLeaf w t envKey"
  by (simp add: lookupLeaf_def aliasLoop_no_struct_decoders aliasesOf_def LookupEnv_def
      worldNoStructText_sel registryNoStructCustom_sel split: option.splits)

lemma Taurus_LoadEnv_no_struct_decoders:
  "Taurus_LoadEnv (worldNoStructText w) (registryNoStructCustom g) (registryNoStructCustom t)
     prefix cfg = Taurus_LoadEnv w g t prefix cfg"
  "Taurus_LoadEnv_fields (worldNoStructText w) (registryNoStructCustom g)
     (registryNoStructCustom t) prefix fs = Taurus_LoadEnv_fields w g t prefix fs"
  by (induction w g t prefix cfg and w g t prefix fs
      rule: Taurus_LoadEnv_Taurus_LoadEnv_fields.induct)
    (simp_all add: Let_def setField_no_struct_decoders lookupLeaf_no_struct_decoders
      envKey_no_struct_decoders split: prod.splits option.splits)

lemma pkg_LoadEnv_no_struct_decoders:
  "pkg_LoadEnv (worldNoStructText w) (registryNoStructCustom r) prefix cfg
     = pkg_LoadEnv w r prefix cfg"
  "pkg_LoadEnv_fields (worldNoStructText w) (registryNoStructCustom r) prefix fs
     = pkg_LoadEnv_fields w r prefix fs"
  by (induction w r prefix cfg and w r prefix fs rule: pkg_LoadEnv_pkg_LoadEnv_fields.induct)
    (simp_all add: Let_def setField_no_struct_decoders lookupLeaf_no_struct_decoders
      envKey_no_struct_decoders split: prod.splits option.splits)

lemma Taurus_loadFlags_no_struct_decoders:
  "Taurus_loadFlags (worldNoStructText w) (registryNoStructCustom t) prefix cfg
     = Taurus_loadFlags w t prefix cfg"
  "Taurus_loadFlags_fields (worldNoStructText w) (registryNoStructCustom t) prefix fs
     = Taurus_loadFlags_fields w t prefix fs"
  by (induction w t prefix cfg and w t prefix fs
      rule: Taurus_loadFlags_Taurus_loadFlags_fields.induct)
    (simp_all add: Let_def setField_no_struct_decoders registryNoStructCustom_sel
      split: prod.splits option.splits)
text \<open>
  C7, amended. Every settable struct-kinded field is recursed into, by both loaders and in
  both variants, whether its type has the method \<^verbatim>\<open>UnmarshalText\<close>, a registered custom
  converter, both or neither: the loader runs on the field's value with the extended key
  (the extended flag path), an error of that run is returned as it is, and otherwise the
  loop goes on. No decoder of a struct type is ever used: a loader gives the same record
  and the same error when every \<^verbatim>\<open>UnmarshalText\<close> and every custom unmarshaler of a
  struct type is taken away.
\<close>

theorem C7_struct_fields_are_recursed_into:
  "(tyKind (fType field) = KStruct \<and> fExported field \<longrightarrow>
      Taurus_LoadEnv_fields w g t prefix ((field, v) # rest)
        = (case Taurus_LoadEnv w g g (Taurus_envKey w prefix field) v of
             (v', Some err) \<Rightarrow> ((field, v') # rest, Some err)
           | (v', None) \<Rightarrow> continue (field, v') (Taurus_LoadEnv_fields w g t prefix rest))
      \<and> pkg_LoadEnv_fields w t prefix ((field, v) # rest)
        = (case pkg_LoadEnv w t (pkg_envKey w prefix field) v of
             (v', Some err) \<Rightarrow> ((field, v') # rest, Some err)
           | (v', None) \<Rightarrow> continue (field, v') (pkg_LoadEnv_fields w t prefix rest))
      \<and> Taurus_loadFlags_fields w t prefix ((field, v) # rest)
        = (case Taurus_loadFlags w t (flagPath prefix field) v of
             (v', Some err) \<Rightarrow> ((field, v') # rest, Some err)
           | (v', None) \<Rightarrow> continue (field, v') (Taurus_loadFlags_fields w t prefix rest)))
   \<and> Taurus_LoadEnv (worldNoStructText w) (registryNoStructCustom g) (registryNoStructCustom t)
        prefix cfg = Taurus_LoadEnv w g t prefix cfg
   \<and> pkg_LoadEnv (worldNoStructText w) (registryNoStructCustom t) prefix cfg
        = pkg_LoadEnv w t prefix cfg
   \<and> Taurus_loadFlags (worldNoStructText w) (registryNoStructCustom t) prefix cfg
        = Taurus_loadFlags w t prefix cfg"
  by (simp add: Let_def Taurus_LoadEnv_no_struct_decoders pkg_LoadEnv_no_struct_decoders
      Taurus_loadFlags_no_struct_decoders)

theorem C7_struct_fields_are_recursed_into_witness:
  "Taurus_LoadEnv_fields
     (withUnmarshalText tyServer (decodeTo (serverOf (VInt 443) (VString ''example.com'')))
        (worldOf [(''APP_SERVER'', ''example.com:443''), (''APP_SERVER_PORT'', ''8080'')]))
     (SetEnvPrefix ''APP'' New) (SetEnvPrefix ''APP'' New) ''APP''
     [(exportedField ''Server'' tyServer, serverOf (VInt 80) (VString ''localhost''))]
   = ([(exportedField ''Server'' tyServer, serverOf (VInt 8080) (VString ''localhost''))], None)"
  using
    C7_struct_fields_are_recursed_into
      [where field = "exportedField ''Server'' tyServer"
         and w = "withUnmarshalText tyServer
                    (decodeTo (serverOf (VInt 443) (VString ''example.com'')))
                    (worldOf [(''APP_SERVER'', ''example.com:443''),
                              (''APP_SERVER_PORT'', ''8080'')])"
         and g = "SetEnvPrefix ''APP'' New" and t = "SetEnvPrefix ''APP'' New"
         and prefix = "''APP''" and v = "serverOf (VInt 80) (VString ''localhost'')"
         and rest = "[]"]
  by (simp add: registry_defs scenario_defs withUnmarshalText_def decodeTo_def loader_defs
      convert_defs)

subsection \<open>C8: the instance methods and the package-level functions\<close>

text \<open>With a non-empty prefix the two variants build the same keys, at every depth.\<close>

lemma envKey_same:
  "prefix \<noteq> [] \<Longrightarrow> Taurus_envKey w prefix field = pkg_envKey w prefix field"
  by (simp add: Taurus_envKey_def pkg_envKey_def)

lemma pkg_envKey_nonempty:
  "pkg_envKey w prefix field \<noteq> []"
  by (simp add: pkg_envKey_def)

text \<open>At the empty prefix they do not: the package-variable variant puts the separator
  in front of the name.\<close>

lemma envKey_empty_prefix:
  "pkg_envKey w [] field = ''_'' @ Taurus_envKey w [] field"
  by (simp add: Taurus_envKey_def pkg_envKey_def)

text \<open>
  When the receiver and the package variable hold the same registry, \<^verbatim>\<open>Taurus.LoadEnv\<close>
  is \<^verbatim>\<open>LoadEnv\<close> of the package-variable variant on that registry, for every record and
  every non-empty prefix; \<^verbatim>\<open>Taurus.LoadFlags\<close> is \<^verbatim>\<open>LoadFlags\<close> of the
  package-variable variant on the receiver's registry, for every record.
\<close>

lemma Taurus_LoadEnv_same_registry:
  "prefix \<noteq> [] \<Longrightarrow> Taurus_LoadEnv w r r prefix cfg = pkg_LoadEnv w r prefix cfg"
  "prefix \<noteq> [] \<Longrightarrow> Taurus_LoadEnv_fields w r r prefix fs = pkg_LoadEnv_fields w r prefix fs"
  by (induction w r prefix cfg and w r prefix fs rule: pkg_LoadEnv_pkg_LoadEnv_fields.induct)
    (simp_all add: Let_def envKey_same pkg_envKey_nonempty split: prod.splits option.splits)

lemma Taurus_LoadFlags_same_registry:
  "Taurus_LoadFlags w r cfg = pkg_LoadFlags w r [] cfg"
  by (simp add: Taurus_LoadFlags_def pkg_LoadFlags_def)

text \<open>
  C8: the code does not bind the nested struct fields with the registry of the instance.
  \<^verbatim>\<open>Taurus.LoadEnv\<close> calls the package-level \<^verbatim>\<open>LoadEnv\<close> on a struct-kinded field,
  which runs on the package variable. Here the instance holds the prefix \<^verbatim>\<open>APP\<close> and the
  alias of \<^verbatim>\<open>Server.Host\<close>, the package variable is as \<^verbatim>\<open>New\<close> made it, and the
  environment is the one of the alias scenario. The method of the instance leaves
  \<^verbatim>\<open>Host\<close> as it was; the package-level function of the package-variable variant on the
  same registry, and the method when the package variable holds the same registry, bind
  it to \<^verbatim>\<open>example.com\<close>.
\<close>

theorem C8_nested_fields_use_the_default_instance:
  "Taurus_LoadEnv scenarioEnv New aliasRegistry ''APP'' (cfgOf (VInt 0) (VString []))
     = (cfgOf (VInt 8080) (VString []), None)
   \<and> pkg_LoadEnv scenarioEnv aliasRegistry ''APP'' (cfgOf (VInt 0) (VString []))
     = (cfgOf (VInt 8080) (VString ''example.com''), None)
   \<and> Taurus_LoadEnv scenarioEnv aliasRegistry aliasRegistry ''APP''
       (cfgOf (VInt 0) (VString []))
     = (cfgOf (VInt 8080) (VString ''example.com''), None)"
  by (simp add: aliasRegistry_def registry_defs scenario_defs loader_defs convert_defs)

subsection \<open>C9: the loaders change the record only\<close>

text \<open>The registry operations do change the memory: after \<^verbatim>\<open>t.SetEnvPrefix\<close>,
  \<^verbatim>\<open>t.BindEnvAlias\<close> or \<^verbatim>\<open>t.BindFlag\<close> the struct of the receiver holds the new
  prefix, alias or flag.\<close>

lemma registry_operations_write:
  "envPrefix (instances (Taurus_SetEnvPrefix_st t prefix m) t) = prefix"
  "envAliases (instances (Taurus_BindEnvAlias_st t fieldPath aliases m) t) fieldPath
     = Some (aliasesOf (instances m t) fieldPath @ aliases)"
  "flags (instances (Taurus_BindFlag_st t fieldPath flag m) t) fieldPath = Some flag"
  by (simp_all add: Taurus_SetEnvPrefix_st_def Taurus_BindEnvAlias_st_def Taurus_BindFlag_st_def
      SetEnvPrefix_def BindEnvAlias_def BindFlag_def)

text \<open>The converter returns the memory it was given.\<close>

lemma Taurus_setField_st_frame:
  "snd (Taurus_setField_st t field fieldValue value m) = m"
  by (simp add: Taurus_setField_st_def split: option.splits prod.splits)




text \<open>
  The steps compute the record and the error of the first embedding, run on the struct of
  the receiver, the struct of the package variable and the process that the memory holds.
\<close>

lemma Taurus_setField_st_result:
  "fst (Taurus_setField_st t field fieldValue value m)
     = setField (process m) (instances m t) field fieldValue value"
  by (simp add: Taurus_setField_st_def setField_def split: option.splits prod.splits)

lemma Taurus_setField_st_eq:
  "Taurus_setField_st t field fieldValue value m
     = (setField (process m) (instances m t) field fieldValue value, m)"
  using Taurus_setField_st_result [of t field fieldValue "value" m]
    Taurus_setField_st_frame [of t field fieldValue "value" m]
  by (simp add: prod_eq_iff)

lemma Taurus_LoadEnv_st_eq:
  "Taurus_LoadEnv_st t prefix cfg m
     = (Taurus_LoadEnv (process m) (instances m (pkg_t m)) (instances m t) prefix cfg, m)"
  "Taurus_LoadEnv_fields_st t prefix fs m
     = (Taurus_LoadEnv_fields (process m) (instances m (pkg_t m)) (instances m t) prefix fs, m)"
  by (induction t prefix cfg m and t prefix fs m
      rule: Taurus_LoadEnv_st_Taurus_LoadEnv_fields_st.induct)
    (auto simp: continue_st_def continue_def Let_def Taurus_setField_st_eq
      split: prod.splits option.splits)

lemma Taurus_loadFlags_st_eq:
  "Taurus_loadFlags_st t prefix cfg m
     = (Taurus_loadFlags (process m) (instances m t) prefix cfg, m)"
  "Taurus_loadFlags_fields_st t prefix fs m
     = (Taurus_loadFlags_fields (process m) (instances m t) prefix fs, m)"
  by (induction t prefix cfg m and t prefix fs m
      rule: Taurus_loadFlags_st_Taurus_loadFlags_fields_st.induct)
    (auto simp: continue_st_def continue_def Let_def Taurus_setField_st_eq
      split: prod.splits option.splits)


subsection \<open>C10: a variable set to the empty text is present\<close>

lemma setBuiltin_empty_text:
  "setBuiltin w KString v [] = (VString [], None)"
  "k \<in> numericOrBoolKinds \<Longrightarrow> setBuiltin w k v [] = (v, Some (emptyTextError k))"
  by (auto simp: setBuiltin_def numericOrBoolKinds_def signedKinds_def unsignedKinds_def
      floatKinds_def emptyTextError_def ParseInt_def ParseUint_def ParseFloat_def ParseBool_def)

lemma lookupLeaf_direct:
  "LookupEnv w envKey = Some envVal \<Longrightarrow> lookupLeaf w t envKey = Some (envKey, envVal)"
  by (simp add: lookupLeaf_def)

text \<open>
  C10, for \<^verbatim>\<open>Taurus.LoadEnv\<close>. Take a settable leaf whose key is set to the empty text
  in the environment, with no custom unmarshaler and no \<^verbatim>\<open>UnmarshalText\<close> for its type,
  and let the fields \<open>pre\<close> before it be bound without error. If the leaf is a string, it
  is overwritten with the empty string, whatever it held, and the loop goes on. If the leaf
  is a signed or unsigned integer, a float or a boolean, the call returns the conversion
  error for the key, the leaf keeps its value and the fields after it are not bound.
\<close>

theorem C10_empty_value_is_present:
  assumes "LookupEnv w (Taurus_envKey w prefix field) = Some []"
    and "fExported field"
    and "customUnmarshalers t (fType field) = None"
    and "textUnmarshalers w (fType field) = None"
    and "Taurus_LoadEnv_fields w g t prefix pre = (pre', None)"
  shows
   "(tyKind (fType field) = KString \<longrightarrow>
       Taurus_LoadEnv w g t prefix (VStruct (pre @ (field, v) # rest))
         = (VStruct (pre' @ (field, VString []) # fst (Taurus_LoadEnv_fields w g t prefix rest)),
            snd (Taurus_LoadEnv_fields w g t prefix rest)))
    \<and> (tyKind (fType field) \<in> numericOrBoolKinds \<longrightarrow>
       Taurus_LoadEnv w g t prefix (VStruct (pre @ (field, v) # rest))
         = (VStruct (pre' @ (field, v) # rest),
            Some (ErrSettingField (Taurus_envKey w prefix field)
                    (emptyTextError (tyKind (fType field))))))"
proof (intro conjI impI)
  assume k: "tyKind (fType field) = KString"
  have "setField w t field v [] = (VString [], None)"
    using assms(3,4) k by (simp add: setField_def setBuiltin_empty_text)
  then show "Taurus_LoadEnv w g t prefix (VStruct (pre @ (field, v) # rest))
      = (VStruct (pre' @ (field, VString []) # fst (Taurus_LoadEnv_fields w g t prefix rest)),
         snd (Taurus_LoadEnv_fields w g t prefix rest))"
    using assms(2,5) k lookupLeaf_direct [OF assms(1), of t]
    by (simp add: Taurus_LoadEnv_fields_append continue_def Let_def split: prod.splits)
next
  assume k: "tyKind (fType field) \<in> numericOrBoolKinds"
  then have ns: "tyKind (fType field) \<noteq> KStruct"
    by (auto simp: numericOrBoolKinds_def signedKinds_def unsignedKinds_def floatKinds_def)
  have "setField w t field v [] = (v, Some (emptyTextError (tyKind (fType field))))"
    using assms(3,4) k by (simp add: setField_def setBuiltin_empty_text)
  then show "Taurus_LoadEnv w g t prefix (VStruct (pre @ (field, v) # rest))
      = (VStruct (pre' @ (field, v) # rest),
         Some (ErrSettingField (Taurus_envKey w prefix field)
                 (emptyTextError (tyKind (fType field)))))"
    using assms(2,5) ns lookupLeaf_direct [OF assms(1), of t]
    by (simp add: Taurus_LoadEnv_fields_append Let_def)
qed

text \<open>The same holds for \<^verbatim>\<open>LoadEnv\<close> of the package-variable variant.\<close>

lemma pkg_LoadEnv_empty_value_is_present:
  assumes "LookupEnv w (pkg_envKey w prefix field) = Some []"
    and "fExported field"
    and "customUnmarshalers r (fType field) = None"
    and "textUnmarshalers w (fType field) = None"
    and "pkg_LoadEnv_fields w r prefix pre = (pre', None)"
  shows
   "(tyKind (fType field) = KString \<longrightarrow>
       pkg_LoadEnv w r prefix (VStruct (pre @ (field, v) # rest))
         = (VStruct (pre' @ (field, VString []) # fst (pkg_LoadEnv_fields w r prefix rest)),
            snd (pkg_LoadEnv_fields w r prefix rest)))
    \<and> (tyKind (fType field) \<in> numericOrBoolKinds \<longrightarrow>
       pkg_LoadEnv w r prefix (VStruct (pre @ (field, v) # rest))
         = (VStruct (pre' @ (field, v) # rest),
            Some (ErrSettingField (pkg_envKey w prefix field)
                    (emptyTextError (tyKind (fType field))))))"
proof (intro conjI impI)
  assume k: "tyKind (fType field) = KString"
  have "setField w r field v [] = (VString [], None)"
    using assms(3,4) k by (simp add: setField_def setBuiltin_empty_text)
  then show "pkg_LoadEnv w r prefix (VStruct (pre @ (field, v) # rest))
      = (VStruct (pre' @ (field, VString []) # fst (pkg_LoadEnv_fields w r prefix rest)),
         snd (pkg_LoadEnv_fields w r prefix rest))"
    using assms(2,5) k lookupLeaf_direct [OF assms(1), of r]
    by (simp add: pkg_LoadEnv_fields_append continue_def Let_def split: prod.splits)
next
  assume k: "tyKind (fType field) \<in> numericOrBoolKinds"
  then have ns: "tyKind (fType field) \<noteq> KStruct"
    by (auto simp: numericOrBoolKinds_def signedKinds_def unsignedKinds_def floatKinds_def)
  have "setField w r field v [] = (v, Some (emptyTextError (tyKind (fType field))))"
    using assms(3,4) k by (simp add: setField_def setBuiltin_empty_text)
  then show "pkg_LoadEnv w r prefix (VStruct (pre @ (field, v) # rest))
      = (VStruct (pre' @ (field, v) # rest),
         Some (ErrSettingField (pkg_envKey w prefix field)
                 (emptyTextError (tyKind (fType field)))))"
    using assms(2,5) ns lookupLeaf_direct [OF assms(1), of r]
    by (simp add: pkg_LoadEnv_fields_append Let_def)
qed

theorem C10_empty_value_is_present_witness:
  "Taurus_LoadEnv (worldOf [(''APP_HOST'', []), (''APP_NAME'', ''new'')])
     New (SetEnvPrefix ''APP'' New) ''APP''
     (VStruct (flatOf (VString ''localhost'') (VInt 80) (VString ''old'')))
   = (VStruct (flatOf (VString []) (VInt 80) (VString ''new'')), None)
   \<and> Taurus_LoadEnv (worldOf [(''APP_HOST'', []), (''APP_PORT'', []), (''APP_NAME'', ''new'')])
     New (SetEnvPrefix ''APP'' New) ''APP''
     (VStruct (flatOf (VString ''localhost'') (VInt 80) (VString ''old'')))
   = (VStruct (flatOf (VString []) (VInt 80) (VString ''old'')),
      Some (ErrSettingField ''APP_PORT'' (ErrInvalidInt ErrSyntax)))"
  using
    C10_empty_value_is_present
      [where w = "worldOf [(''APP_HOST'', []), (''APP_NAME'', ''new'')]"
         and g = New and t = "SetEnvPrefix ''APP'' New" and prefix = "''APP''"
         and pre = "[]" and pre' = "[]"
         and field = "exportedField ''Host'' tyString" and v = "VString ''localhost''"
         and rest = "[(exportedField ''Port'' tyInt, VInt 80),
                      (exportedField ''Name'' tyString, VString ''old'')]"]
    C10_empty_value_is_present
      [where w = "worldOf [(''APP_HOST'', []), (''APP_PORT'', []), (''APP_NAME'', ''new'')]"
         and g = New and t = "SetEnvPrefix ''APP'' New" and prefix = "''APP''"
         and pre = "[(exportedField ''Host'' tyString, VString ''localhost'')]"
         and pre' = "[(exportedField ''Host'' tyString, VString [])]"
         and field = "exportedField ''Port'' tyInt" and v = "VInt 80"
         and rest = "[(exportedField ''Name'' tyString, VString ''old'')]"]
  by (simp add: registry_defs scenario_defs flatOf_def loader_defs convert_defs
      numericOrBoolKinds_def signedKinds_def emptyTextError_def)

end
